theory Spec2Isabelle
  imports Complex_Main "HOL-Library.Sublist"
begin

section \<open>Python values, exceptions and string helpers\<close>

text \<open>
  The exceptions that the functions of \<^verbatim>\<open>auto_partitioner.py\<close> raise themselves or let
  escape from a builtin.  The two \<^verbatim>\<open>ValueError\<close>s of \<^verbatim>\<open>make_raid_array\<close> keep separate
  constructors so that a result tells which check raised.
\<close>

datatype error =
    InvalidRaidType      \<comment> \<open>\<^verbatim>\<open>ValueError("'%s' not a valid BTRFS RAID type")\<close>\<close>
  | WrongDiskCount       \<comment> \<open>\<^verbatim>\<open>ValueError("Not enough disks ...")\<close>, \<^verbatim>\<open>("Not enough/Too many disks ...")\<close>\<close>
  | DeviceNotFound string  \<comment> \<open>\<^verbatim>\<open>FileNotFoundError("Device not found: %s")\<close>\<close>
  | IntParseError        \<comment> \<open>\<^verbatim>\<open>ValueError\<close> of \<^verbatim>\<open>int(str)\<close>\<close>
  | IndexError
  | KeyError
  | TypeError
  | AttributeError

text \<open>
  The values \<^verbatim>\<open>raid_array["raid_type"]\<close> takes: \<^verbatim>\<open>None\<close>, a string such as \<^verbatim>\<open>"RAID1"\<close> or
  \<^verbatim>\<open>"OEM"\<close>, or (after normalisation) an int.
\<close>

datatype pyval = PNone | PStr string | PInt int

text \<open>\<^verbatim>\<open>needle in hay\<close> on strings: \<^verbatim>\<open>needle\<close> occurs as a contiguous run.\<close>

fun str_in :: "string \<Rightarrow> string \<Rightarrow> bool" where
  "str_in needle [] = (needle = [])"
| "str_in needle (c # cs) = (prefix needle (c # cs) \<or> str_in needle cs)"

text \<open>\<^verbatim>\<open>str.lower()\<close> on ASCII letters (the strings compared are ASCII).\<close>

definition lower_char :: "char \<Rightarrow> char" where
  "lower_char c =
     (let n = (of_char c :: nat) in if 65 \<le> n \<and> n \<le> 90 then char_of (n + 32) else c)"

definition lower :: "string \<Rightarrow> string" where
  "lower s = map lower_char s"

text \<open>
  \<^verbatim>\<open>int(s)\<close> for a string: surrounding ASCII whitespace is stripped, one sign is allowed,
  and the digits may be separated by single underscores.  Anything else raises
  \<^verbatim>\<open>ValueError\<close>.
\<close>

definition is_digit :: "char \<Rightarrow> bool" where
  "is_digit c = (let n = (of_char c :: nat) in 48 \<le> n \<and> n \<le> 57)"

definition is_space :: "char \<Rightarrow> bool" where
  "is_space c = (let n = (of_char c :: nat) in (9 \<le> n \<and> n \<le> 13) \<or> (28 \<le> n \<and> n \<le> 32))"

definition digit_val :: "char \<Rightarrow> int" where
  "digit_val c = int (of_char c) - 48"

definition strip :: "string \<Rightarrow> string" where
  "strip s = rev (dropWhile is_space (rev (dropWhile is_space s)))"

text \<open>Digits with single underscores between them; the accumulator is the value so far.\<close>

fun int_digits :: "int \<Rightarrow> string \<Rightarrow> error + int" where
  "int_digits acc [] = Inr acc"
| "int_digits acc [c] = (if is_digit c then Inr (10 * acc + digit_val c) else Inl IntParseError)"
| "int_digits acc (c # d # cs) =
     (if is_digit c then
        (if d = CHR ''_'' then
           (case cs of [] \<Rightarrow> Inl IntParseError
            | e # _ \<Rightarrow> if is_digit e then int_digits (10 * acc + digit_val c) cs
                       else Inl IntParseError)
         else int_digits (10 * acc + digit_val c) (d # cs))
      else Inl IntParseError)"

definition unsigned_int :: "string \<Rightarrow> error + int" where
  "unsigned_int s = (if s = [] then Inl IntParseError else int_digits 0 s)"

definition py_int_of_str :: "string \<Rightarrow> error + int" where
  "py_int_of_str s =
     (case strip s of
        [] \<Rightarrow> Inl IntParseError
      | c # cs \<Rightarrow>
          if c = CHR ''-'' then map_sum id uminus (unsigned_int cs)
          else if c = CHR ''+'' then unsigned_int cs
          else unsigned_int (c # cs))"

text \<open>\<^verbatim>\<open>xs[i]\<close> on a list: a negative index counts from the end, out of range raises.\<close>

definition py_index_ok :: "'a list \<Rightarrow> int \<Rightarrow> nat option" where
  "py_index_ok xs i =
     (if 0 \<le> i \<and> i < int (length xs) then Some (nat i)
      else if i < 0 \<and> - int (length xs) \<le> i then Some (nat (int (length xs) + i))
      else None)"

section \<open>Unit conversion\<close>

text \<open>
  Python floats are modelled by exact rationals: \<^verbatim>\<open>/\<close> is exact division.  At the
  concrete inputs used below every intermediate value is an integer below \<open>2^53\<close> or a
  quotient that a double holds exactly, so there the two agree.
\<close>

definition gb_to_bytes :: "rat \<Rightarrow> rat" where
  "gb_to_bytes gb = gb * (10 ^ 9)"

definition bytes_to_gb :: "rat \<Rightarrow> rat" where
  "bytes_to_gb b = b / (10 ^ 9)"

definition LIMITER :: rat where
  "LIMITER = gb_to_bytes 32"

definition sectors_to_size :: "int \<Rightarrow> int \<Rightarrow> rat" where
  "sectors_to_size sectors sector_size = of_int (sectors * sector_size) / 1000 ^ 2"

text \<open>\<^verbatim>\<open>int(x)\<close> on a float truncates toward zero.\<close>

definition py_trunc :: "rat \<Rightarrow> int" where
  "py_trunc x = (if 0 \<le> x then \<lfloor>x\<rfloor> else \<lceil>x\<rceil>)"

section \<open>Marking a partition bootable\<close>

text \<open>
  \<^verbatim>\<open>make_part_boot(part_path)\<close>.  The partition table is external: \<open>open_table root\<close> is
  what \<^verbatim>\<open>parted.Disk(parted.getDevice(root)).getPrimaryPartitions()\<close> yields, as the list of
  the primary partitions' boot flags, or the exception the library raised.  The result is
  the table that is committed: the device and its flags after \<^verbatim>\<open>setFlag\<close>.
\<close>

definition make_part_boot ::
  "(string \<Rightarrow> error + bool list) \<Rightarrow> string \<Rightarrow> error + (string \<times> bool list)" where
  "make_part_boot open_table part_path =
     (let root = (if str_in ''nvme'' part_path then take 12 part_path else take 8 part_path)
      in case open_table root of
           Inl e \<Rightarrow> Inl e
         | Inr partitions \<Rightarrow>
             (case py_int_of_str (if str_in ''nvme'' part_path then drop 13 part_path
                                  else drop 8 part_path) of
                Inl e \<Rightarrow> Inl e
              | Inr i \<Rightarrow>
                  (case py_index_ok partitions i of
                     None \<Rightarrow> Inl IndexError
                   | Some k \<Rightarrow> Inr (root, partitions[k := True]))))"

text \<open>The decimal value of a digit string, most significant digit first.\<close>

definition dec_value :: "string \<Rightarrow> int" where
  "dec_value ds = foldl (\<lambda>acc c. 10 * acc + digit_val c) 0 ds"

section \<open>The outside world\<close>

text \<open>
  A block device as \<^verbatim>\<open>parted.getDevice\<close> describes it, and a free-space region of its
  partition table (start, end and length in sectors).
\<close>

record device =
  dpath :: string
  dlength :: int
  sectorSize :: int

record region =
  rg_start :: int
  rg_end :: int
  rg_length :: int

text \<open>
  What the planner reads from libraries and from the system, none of it code of this
  repository:
  \<^item> \<open>getDevice\<close>: \<^verbatim>\<open>parted.getDevice(path)\<close>;
  \<^item> \<open>getSize\<close>: \<^verbatim>\<open>Geometry.getSize()\<close> of a region, the megabyte figure the scan compares
    with 200;
  \<^item> \<open>sizeToSectors v ss\<close>: \<^verbatim>\<open>parted.sizeToSectors(v, "MB", ss)\<close>;
  \<^item> \<open>getFreeSpaceRegions\<close>: the free regions of the existing table, in the library's order;
  \<^item> \<open>part_path k\<close>: the device file of the \<open>k\<close>-th partition added in this run (from 0);
  \<^item> \<open>path_exists\<close>: \<^verbatim>\<open>os.path.exists\<close>;
  \<^item> \<open>check_call cmd\<close>: whether \<^verbatim>\<open>subprocess.check_call(cmd)\<close> returns (exit status 0);
  \<^item> \<open>physical_memory\<close>: \<^verbatim>\<open>psutil.virtual_memory().total\<close>;
  \<^item> \<open>swap_float mem\<close>: the value of the floating-point expression
    \<^verbatim>\<open>round((mem + ((mem / 1024 ** 3) ** 0.5) * 1024 ** 3))\<close>, which has a square root of a
    double and is left to the environment.
\<close>

record env =
  getDevice :: "string \<Rightarrow> device"
  getSize :: "region \<Rightarrow> rat"
  sizeToSectors :: "rat \<Rightarrow> int \<Rightarrow> int"
  getFreeSpaceRegions :: "region list"
  part_path :: "nat \<Rightarrow> string"
  path_exists :: "string \<Rightarrow> bool"
  check_call :: "string list \<Rightarrow> bool"
  physical_memory :: int
  swap_float :: "rat \<Rightarrow> int"

text \<open>
  A partition boundary as \<^verbatim>\<open>__make_root__\<close> receives it: a number of megabytes, or a
  string such as \<^verbatim>\<open>"40%"\<close>.
\<close>

datatype bound = Num rat | Str string

text \<open>The module-level \<^verbatim>\<open>config\<close> dictionary, with its built-in defaults.\<close>

record config =
  ROOT_START :: bound
  ROOT_END :: bound
  ROOT_fs :: string
  HOME_START :: bound
  HOME_END :: bound
  HOME_fs :: string
  EFI_START :: rat
  EFI_END :: rat
  min_root_size :: rat
  mdswh :: rat

definition default_config :: config where
  "default_config =
     \<lparr>ROOT_START = Num 201, ROOT_END = Str ''40%'', ROOT_fs = ''ext4'',
      HOME_START = Str ''40%'', HOME_END = Str ''100%'', HOME_fs = ''ext4'',
      EFI_START = 0, EFI_END = 200, min_root_size = 23000, mdswh = 128\<rparr>"

text \<open>
  What is sent to the partition table for a new partition: the geometry (start and length
  in sectors) and the boot flag, together with the start and end in megabytes it was
  computed from.  The alignment constraint built from the same start and end is not
  recorded.
\<close>

record part_request =
  geo_start :: rat
  geo_length :: int
  boot :: bool
  req_start :: rat
  req_end :: rat

text \<open>
  The operations on the outside world, in the order they happen: \<open>Clobber\<close> is
  \<^verbatim>\<open>clobber_disk\<close> (wipe the device, commit a fresh GPT label), \<open>AddPartition\<close> is
  \<^verbatim>\<open>disk.addPartition\<close> with its commit, \<open>SetBootFirst\<close> is \<^verbatim>\<open>__make_root_boot__\<close>, and
  \<open>Run\<close> is a subprocess command.
\<close>

datatype event =
    Clobber string
  | AddPartition part_request
  | SetBootFirst
  | Run "string list"

text \<open>
  A computation takes the operations done so far and returns its value or the exception
  it raised, with the operations done by then.
\<close>

type_synonym 'a io = "event list \<Rightarrow> (error + 'a) \<times> event list"

definition io_ret :: "'a \<Rightarrow> 'a io" where
  "io_ret x = (\<lambda>tr. (Inr x, tr))"

definition io_raise :: "error \<Rightarrow> 'a io" where
  "io_raise e = (\<lambda>tr. (Inl e, tr))"

definition io_emit :: "event \<Rightarrow> unit io" where
  "io_emit ev = (\<lambda>tr. (Inr (), tr @ [ev]))"

definition io_bind :: "'a io \<Rightarrow> ('a \<Rightarrow> 'b io) \<Rightarrow> 'b io" where
  "io_bind m f = (\<lambda>tr. case m tr of (Inl e, tr') \<Rightarrow> (Inl e, tr') | (Inr x, tr') \<Rightarrow> f x tr')"

definition io_lift :: "error + 'a \<Rightarrow> 'a io" where
  "io_lift r = (case r of Inl e \<Rightarrow> io_raise e | Inr x \<Rightarrow> io_ret x)"

section \<open>Minimum root size\<close>

text \<open>
  \<^verbatim>\<open>get_min_root_size(swap, ram_size, ram_size_unit, bytes)\<close>.  \<open>ram_size = None\<close> stands for
  a value that is neither int nor float (the default \<^verbatim>\<open>False\<close>).
\<close>

definition get_min_root_size ::
  "env \<Rightarrow> config \<Rightarrow> bool \<Rightarrow> rat option \<Rightarrow> bool \<Rightarrow> bool \<Rightarrow> rat" where
  "get_min_root_size env cfg swap ram_size ram_size_unit bytes =
     (let swap_amount =
            (if swap then
               swap_float env
                 (case ram_size of
                    None \<Rightarrow> of_int (physical_memory env)
                  | Some r \<Rightarrow> if ram_size_unit then gb_to_bytes r else r)
             else 0);
          min_root = of_int swap_amount + min_root_size cfg * (1000 ^ 2)
      in if \<not> bytes then bytes_to_gb min_root else min_root)"

section \<open>Creating partitions\<close>

definition is_add :: "event \<Rightarrow> bool" where
  "is_add ev = (case ev of AddPartition _ \<Rightarrow> True | _ \<Rightarrow> False)"

definition add_partition :: "env \<Rightarrow> part_request \<Rightarrow> string io" where
  "add_partition env rq =
     (\<lambda>tr. (Inr (part_path env (length (filter is_add tr))), tr @ [AddPartition rq]))"

definition mkfs :: "string \<Rightarrow> string \<Rightarrow> unit io" where
  "mkfs dev_file fs =
     io_emit (Run [''mkfs'', ''-t'', fs, (if str_in ''ext'' fs then ''-F'' else ''-f''), dev_file])"

definition mkfs_fat :: "string \<Rightarrow> unit io" where
  "mkfs_fat dev_file = io_emit (Run [''mkfs.fat'', ''-F'', ''32'', dev_file])"

text \<open>\<^verbatim>\<open>__make_efi__(device, start, end)\<close>: the geometry starts at \<open>start\<close> as given.\<close>

definition make_efi :: "env \<Rightarrow> device \<Rightarrow> rat \<Rightarrow> rat \<Rightarrow> string io" where
  "make_efi env dev start end' =
     io_bind
       (add_partition env
          \<lparr>geo_start = start,
           geo_length = sizeToSectors env (end' - start) (sectorSize dev),
           boot = True, req_start = start, req_end = end'\<rparr>)
       (\<lambda>p. io_bind (mkfs_fat p) (\<lambda>_. io_ret p))"

text \<open>
  The boundary resolution at the head of \<^verbatim>\<open>__make_root__\<close>: a string ending in \<^verbatim>\<open>%\<close>
  becomes that share of the device's megabytes, truncated; a number is left alone (the
  \<^verbatim>\<open>TypeError\<close> of indexing it is caught); any other string is left alone as well.
\<close>

definition resolve_bound :: "rat \<Rightarrow> bound \<Rightarrow> error + bound" where
  "resolve_bound mb b =
     (case b of
        Num x \<Rightarrow> Inr (Num x)
      | Str s \<Rightarrow>
          if s = [] then Inl IndexError
          else if last s = CHR ''%'' then
            (case py_int_of_str (butlast s) of
               Inl e \<Rightarrow> Inl e
             | Inr n \<Rightarrow> Inr (Num (of_int (py_trunc (mb * (of_int n / 100))))))
          else Inr (Str s))"

text \<open>
  \<^verbatim>\<open>__make_root__(device, start, end, fs)\<close>.  A boundary that is still a string raises
  \<^verbatim>\<open>TypeError\<close> at the first subtraction, before the table is touched.
\<close>

definition make_root :: "env \<Rightarrow> device \<Rightarrow> bound \<Rightarrow> bound \<Rightarrow> string \<Rightarrow> string io" where
  "make_root env dev start end' fs =
     (let mb = sectors_to_size (dlength dev) (sectorSize dev)
      in io_bind (io_lift (resolve_bound mb start)) (\<lambda>s.
         io_bind (io_lift (resolve_bound mb end')) (\<lambda>e.
           case (s, e) of
             (Num a, Num b) \<Rightarrow>
               io_bind
                 (add_partition env
                    \<lparr>geo_start = of_int (sizeToSectors env a (sectorSize dev)),
                     geo_length = sizeToSectors env (b - a) (sectorSize dev),
                     boot = False, req_start = a, req_end = b\<rparr>)
                 (\<lambda>p. io_bind (mkfs p fs) (\<lambda>_. io_ret p))
           | _ \<Rightarrow> io_raise TypeError)))"

text \<open>\<^verbatim>\<open>__make_home__\<close> is \<^verbatim>\<open>__make_root__\<close> with other arguments.\<close>

definition make_home :: "env \<Rightarrow> device \<Rightarrow> bound \<Rightarrow> bound \<Rightarrow> string \<Rightarrow> string io" where
  "make_home env dev new_start new_end new_fs = make_root env dev new_start new_end new_fs"

definition make_root_boot :: "unit io" where
  "make_root_boot = io_emit SetBootFirst"

definition clobber_disk :: "device \<Rightarrow> unit io" where
  "clobber_disk dev = io_emit (Clobber (dpath dev))"

text \<open>\<^verbatim>\<open>__generate_return_data__\<close>: the dictionary with the keys EFI, ROOT and HOME.\<close>

type_synonym layout = "string \<rightharpoonup> string option"

definition generate_return_data ::
  "string option \<Rightarrow> bool \<Rightarrow> string option \<Rightarrow> string option \<Rightarrow> string option \<Rightarrow> layout" where
  "generate_return_data home efi part1 part2 part3 =
     [''EFI'' \<mapsto> (if efi then part1 else None),
      ''ROOT'' \<mapsto> (if efi then part2 else part1),
      ''HOME'' \<mapsto> (if home \<noteq> Some ''MAKE'' then home else if efi then part3 else part2)]"

section \<open>Building a RAID array\<close>

definition raid_types_dict :: "pyval \<Rightarrow> string option" where
  "raid_types_dict t =
     (if t = PInt 0 then Some ''raid0''
      else if t = PInt 1 then Some ''raid1''
      else if t = PInt 5 then Some ''raid5''
      else if t = PInt 6 then Some ''raid6''
      else if t = PInt 10 then Some ''raid10''
      else None)"

text \<open>The member-count checks, in the order of the \<^verbatim>\<open>if\<close>/\<^verbatim>\<open>elif\<close> chain.\<close>

definition wrong_disk_count :: "pyval \<Rightarrow> nat \<Rightarrow> bool" where
  "wrong_disk_count t n =
     (if t = PInt 0 \<or> t = PInt 1 then n < 2
      else if t = PInt 5 then \<not> (3 \<le> n \<and> n \<le> 16)
      else if t = PInt 6 \<or> t = PInt 10 then n < 4
      else False)"

definition raid_command :: "string list \<Rightarrow> pyval \<Rightarrow> string \<Rightarrow> bool \<Rightarrow> string list" where
  "raid_command disks t name force =
     (if force then [''mkfs.btrfs'', ''-f'', ''-d''] else [''mkfs.btrfs'', ''-d''])
     @ [name]
     @ (if \<not> (t = PInt 0 \<or> t = PInt 5 \<or> t = PInt 6) then [''-m'', name] else [])
     @ disks"

definition make_raid_array :: "env \<Rightarrow> string list \<Rightarrow> pyval \<Rightarrow> bool \<Rightarrow> bool io" where
  "make_raid_array env disks t force =
     (case raid_types_dict t of
        None \<Rightarrow> io_raise InvalidRaidType
      | Some name \<Rightarrow>
          if wrong_disk_count t (length disks) then io_raise WrongDiskCount
          else
            (case find (\<lambda>d. \<not> path_exists env d) disks of
               Some d \<Rightarrow> io_raise (DeviceNotFound d)
             | None \<Rightarrow>
                 io_bind (io_emit (Run (raid_command disks t name force)))
                   (\<lambda>_. io_ret (check_call env (raid_command disks t name force)))))"

section \<open>The partition planner\<close>

text \<open>
  The \<^verbatim>\<open>raid_array\<close> argument: \<^verbatim>\<open>"raid_type"\<close> and the dictionary \<^verbatim>\<open>"disks"\<close> from slot
  names to device files or \<^verbatim>\<open>None\<close>, in insertion order.
\<close>

record raid_array =
  raid_type :: pyval
  disks :: "(string \<times> string option) list"

text \<open>
  What \<^verbatim>\<open>raid_array["disks"]\<close> holds after lines 400 to 418: still the dictionary, or the
  list of its values that are not \<^verbatim>\<open>None\<close>.
\<close>

datatype disks_value = Slots "(string \<times> string option) list" | Members "string list"

text \<open>Lines 407 to 411: a \<^verbatim>\<open>None\<close> in slot \<^verbatim>\<open>"1"\<close> or \<^verbatim>\<open>"2"\<close> resets the type to \<^verbatim>\<open>None\<close>.\<close>

fun slot_check :: "(string \<times> string option) list \<Rightarrow> pyval \<Rightarrow> pyval" where
  "slot_check [] t = t"
| "slot_check ((each, v) # d) t =
     slot_check d (if (each = ''1'' \<or> each = ''2'') \<and> v = None then PNone else t)"

text \<open>Lines 414 to 417: the values that are not \<^verbatim>\<open>None\<close>, in order.\<close>

fun non_null :: "(string \<times> string option) list \<Rightarrow> string list" where
  "non_null [] = []"
| "non_null ((each, None) # d) = non_null d"
| "non_null ((each, Some v) # d) = v # non_null d"

text \<open>
  Lines 400 to 418.  An int has no \<^verbatim>\<open>lower\<close>, so a type that is already an int raises
  \<^verbatim>\<open>AttributeError\<close>.  Only \<^verbatim>\<open>raid0\<close>, \<^verbatim>\<open>raid1\<close> and \<^verbatim>\<open>raid10\<close> are turned into ints; any
  other string stays as it is.
\<close>

definition raid_prelude :: "raid_array \<Rightarrow> error + (pyval \<times> disks_value)" where
  "raid_prelude ra =
     (case
        (if raid_type ra \<noteq> PNone \<and> raid_type ra \<noteq> PStr ''OEM'' then
           (case raid_type ra of
              PStr s \<Rightarrow>
                Inr (slot_check (disks ra)
                       (if lower s = ''raid0'' then PInt 0
                        else if lower s = ''raid1'' then PInt 1
                        else if lower s = ''raid10'' then PInt 10
                        else PStr s))
            | _ \<Rightarrow> Inl AttributeError)
         else Inr (raid_type ra))
      of
        Inl e \<Rightarrow> Inl e
      | Inr t \<Rightarrow> Inr (t, if t \<noteq> PNone then Members (non_null (disks ra)) else Slots (disks ra)))"

text \<open>
  Lines 426 to 441: the device is wiped unless a home partition is to be kept, and a
  requested array is built, a second time with \<^verbatim>\<open>force\<close> if the first build fails.  The
  value is \<^verbatim>\<open>home\<close> as it stands afterwards.  The \<open>Slots\<close> case does not occur: with a type
  other than \<^verbatim>\<open>None\<close> the prelude has replaced the dictionary by the list.
\<close>

definition home_unset_or_make :: "string option \<Rightarrow> bool" where
  "home_unset_or_make home =
     (home = Some ''NULL'' \<or> home = Some ''null'' \<or> home = None \<or> home = Some ''MAKE'')"

definition prepare_disk ::
  "env \<Rightarrow> device \<Rightarrow> string option \<Rightarrow> pyval \<Rightarrow> disks_value \<Rightarrow> string option io" where
  "prepare_disk env dev home t ds =
     (if home_unset_or_make home \<and> t = PNone then
        io_bind (clobber_disk dev) (\<lambda>_. io_ret home)
      else if t \<noteq> PNone then
        io_bind (clobber_disk dev) (\<lambda>_.
          case ds of
            Slots _ \<Rightarrow> io_raise TypeError
          | Members l \<Rightarrow>
              io_bind (make_raid_array env l t False) (\<lambda>ok.
                if \<not> ok then
                  io_bind (make_raid_array env l t True) (\<lambda>ok2.
                    io_ret (if \<not> ok2 then None else home))
                else io_ret home))
      else io_ret home)"

text \<open>
  Lines 443 to 450, and again lines 475 to 482: EFI and a root up to \<^verbatim>\<open>"100%"\<close>, or a root
  from \<^verbatim>\<open>"0%"\<close> to \<^verbatim>\<open>"100%"\<close> that is made bootable.
\<close>

definition whole_disk_layout ::
  "env \<Rightarrow> config \<Rightarrow> device \<Rightarrow> bool \<Rightarrow> string option \<Rightarrow> layout io" where
  "whole_disk_layout env cfg dev efi home =
     (if efi then
        io_bind (make_efi env dev (EFI_START cfg) (EFI_END cfg)) (\<lambda>part1.
        io_bind (make_root env dev (ROOT_START cfg) (Str ''100%'') (ROOT_fs cfg)) (\<lambda>part2.
          io_ret (generate_return_data home efi (Some part1) (Some part2) None)))
      else
        io_bind (make_root env dev (Str ''0%'') (Str ''100%'') (ROOT_fs cfg)) (\<lambda>part1.
        io_bind make_root_boot (\<lambda>_.
          io_ret (generate_return_data home efi (Some part1) None None))))"

text \<open>
  Lines 457 to 460: the end of root when a home partition is made.  \<open>sz\<close> is the planner's
  variable \<^verbatim>\<open>size\<close>; \<^verbatim>\<open>0.35\<close> is taken as 35/100.
\<close>

definition root_end_for_make :: "env \<Rightarrow> config \<Rightarrow> rat \<Rightarrow> rat" where
  "root_end_for_make env cfg sz =
     (if sz \<ge> gb_to_bytes (mdswh cfg) then of_int (py_trunc ((sz * (35 / 100)) / (1000 ^ 2)))
      else get_min_root_size env cfg True None True True)"

text \<open>Lines 461 to 470; \<^verbatim>\<open>part1\<close> is always \<^verbatim>\<open>None\<close> on entry.\<close>

definition make_home_layout ::
  "env \<Rightarrow> config \<Rightarrow> device \<Rightarrow> rat \<Rightarrow> bool \<Rightarrow> string option \<Rightarrow> layout io" where
  "make_home_layout env cfg dev sz efi home =
     (let root_end = root_end_for_make env cfg sz in
      if efi then
        io_bind (make_efi env dev (EFI_START cfg) (EFI_END cfg)) (\<lambda>part1.
        io_bind (make_root env dev (ROOT_START cfg) (Num root_end) (ROOT_fs cfg)) (\<lambda>part2.
        io_bind (make_home env dev (Num root_end) (HOME_END cfg) (HOME_fs cfg)) (\<lambda>part3.
          io_ret (generate_return_data home efi (Some part1) (Some part2) (Some part3)))))
      else
        io_bind (make_root env dev (Str ''0%'') (Num root_end) (ROOT_fs cfg)) (\<lambda>part1.
        io_bind make_root_boot (\<lambda>_.
        io_bind (make_home env dev (Num root_end) (HOME_END cfg) (HOME_fs cfg)) (\<lambda>part2.
          io_ret (generate_return_data home efi (Some part1) (Some part2) None)))))"

text \<open>
  Lines 494 to 498: the dictionary from length to region, in which a later region of the
  same length replaces an earlier one, and its keys in ascending order.
\<close>

definition sizes_dict :: "region list \<Rightarrow> (int \<rightharpoonup> region)" where
  "sizes_dict data = map_of (rev (map (\<lambda>each. (rg_length each, each)) data))"

definition sizes_sorted :: "region list \<Rightarrow> int list" where
  "sizes_sorted data = sort (remdups (map rg_length data))"

text \<open>
  The scan of both loops (lines 501 to 502 and 512 to 513): the region of the first key
  whose \<^verbatim>\<open>getSize()\<close> is at least 200, where the loop body runs and breaks.
\<close>

fun first_fit :: "env \<Rightarrow> (int \<rightharpoonup> region) \<Rightarrow> int list \<Rightarrow> error + region option" where
  "first_fit env sizes [] = Inr None"
| "first_fit env sizes (each # rest) =
     (case sizes each of
        None \<Rightarrow> Inl KeyError
      | Some r \<Rightarrow> if getSize env r \<ge> 200 then Inr (Some r) else first_fit env sizes rest)"

text \<open>Lines 493 to 519: the home partition is on the installation drive.\<close>

definition same_device_layout ::
  "env \<Rightarrow> config \<Rightarrow> device \<Rightarrow> bool \<Rightarrow> string option \<Rightarrow> layout io" where
  "same_device_layout env cfg dev efi home =
     (let data = getFreeSpaceRegions env in
      io_bind (io_lift (first_fit env (sizes_dict data) (sizes_sorted data))) (\<lambda>found.
        case found of
          None \<Rightarrow> io_ret (generate_return_data home efi None None None)
        | Some r \<Rightarrow>
            if efi then
              (let end' = sectors_to_size
                            (rg_start r + sizeToSectors env 200 (sectorSize dev)) (sectorSize dev)
               in io_bind (make_efi env dev (of_int (rg_start r)) end') (\<lambda>part1.
                  io_bind (make_root env dev (Num end') (Num (of_int (rg_end r))) (ROOT_fs cfg))
                    (\<lambda>part2.
                      io_ret (generate_return_data home efi (Some part1) (Some part2) None))))
            else
              io_bind (make_root env dev (Num (of_int (rg_start r))) (Num (of_int (rg_end r)))
                         (ROOT_fs cfg)) (\<lambda>part1.
              io_bind make_root_boot (\<lambda>_.
                io_ret (generate_return_data home efi (Some part1) None None)))))"

text \<open>Lines 521 to 531: the home partition is on another drive.\<close>

definition elsewhere_layout ::
  "env \<Rightarrow> config \<Rightarrow> device \<Rightarrow> bool \<Rightarrow> string option \<Rightarrow> layout io" where
  "elsewhere_layout env cfg dev efi home =
     (if efi then
        io_bind (make_efi env dev (EFI_START cfg) (EFI_END cfg)) (\<lambda>part1.
        io_bind (make_root env dev (ROOT_START cfg) (ROOT_END cfg) (ROOT_fs cfg)) (\<lambda>part2.
          io_ret (generate_return_data home efi (Some part1) (Some part2) home)))
      else
        io_bind (make_root env dev (Str ''0%'') (Str ''100%'') (ROOT_fs cfg)) (\<lambda>part1.
        io_bind make_root_boot (\<lambda>_.
          io_ret (generate_return_data home efi (Some part1) None home))))"

text \<open>The planner's variable \<^verbatim>\<open>size\<close> (line 425).\<close>

definition planner_size :: "device \<Rightarrow> rat" where
  "planner_size dev = sectors_to_size (dlength dev) (sectorSize dev) * 1000"

text \<open>Lines 485 to 488: the drive the home partition is on.\<close>

definition home_drive :: "string \<Rightarrow> string" where
  "home_drive home =
     (if str_in ''nvme'' home then take (length home - 2) home else take (length home - 1) home)"

text \<open>The branches after the disk is prepared (lines 442 to 531).\<close>

definition plan_layout ::
  "env \<Rightarrow> config \<Rightarrow> string \<Rightarrow> device \<Rightarrow> bool \<Rightarrow> string option \<Rightarrow> layout io" where
  "plan_layout env cfg root_path dev efi home =
     (if planner_size dev \<le> LIMITER then whole_disk_layout env cfg dev efi home
      else if home = Some ''MAKE'' then make_home_layout env cfg dev (planner_size dev) efi home
      else
        (case home of
           None \<Rightarrow> whole_disk_layout env cfg dev efi home
         | Some h \<Rightarrow>
             if h = ''NULL'' \<or> h = ''null'' then whole_disk_layout env cfg dev efi home
             else if root_path = home_drive h then same_device_layout env cfg dev efi home
             else elsewhere_layout env cfg dev efi home))"

text \<open>\<^verbatim>\<open>partition(root, efi, home, raid_array)\<close>; \<open>root_path\<close> is the argument \<^verbatim>\<open>root\<close>.\<close>

definition partition ::
  "env \<Rightarrow> config \<Rightarrow> string \<Rightarrow> bool \<Rightarrow> string option \<Rightarrow> raid_array \<Rightarrow> layout io" where
  "partition env cfg root_path efi home ra =
     io_bind (io_lift (raid_prelude ra)) (\<lambda>(t, ds).
     io_bind (prepare_disk env (getDevice env root_path) home t ds) (\<lambda>home'.
       plan_layout env cfg root_path (getDevice env root_path) efi home'))"

section \<open>Reading a run\<close>

text \<open>The start and end in megabytes of the partitions added, in order.\<close>

fun request_bounds :: "event list \<Rightarrow> (rat \<times> rat) list" where
  "request_bounds [] = []"
| "request_bounds (AddPartition rq # tr) = (req_start rq, req_end rq) # request_bounds tr"
| "request_bounds (_ # tr) = request_bounds tr"

text \<open>The \<^verbatim>\<open>mkfs.btrfs\<close> commands run, in order.\<close>

fun raid_builds :: "event list \<Rightarrow> string list list" where
  "raid_builds [] = []"
| "raid_builds (Run (c # args) # tr) =
     (if c = ''mkfs.btrfs'' then (c # args) # raid_builds tr else raid_builds tr)"
| "raid_builds (_ # tr) = raid_builds tr"

text \<open>The errors \<^verbatim>\<open>make_raid_array\<close> raises when it validates its arguments.\<close>

fun raid_validation_error :: "error \<Rightarrow> bool" where
  "raid_validation_error InvalidRaidType = True"
| "raid_validation_error WrongDiskCount = True"
| "raid_validation_error (DeviceNotFound _) = True"
| "raid_validation_error _ = False"

text \<open>The three entries of a returned layout, or the exception.\<close>

definition layout_entries ::
  "error + layout \<Rightarrow> error + (string option option \<times> string option option \<times> string option option)"
  where
  "layout_entries r = map_sum id (\<lambda>l. (l ''EFI'', l ''ROOT'', l ''HOME'')) r"

section \<open>The specification's figures\<close>


text \<open>The size of a device in bytes and in megabytes.\<close>

definition device_bytes :: "device \<Rightarrow> rat" where
  "device_bytes dev = of_int (dlength dev * sectorSize dev)"



text \<open>A free region in megabytes, by \<^verbatim>\<open>sectors_to_size\<close>.\<close>

definition region_mb :: "device \<Rightarrow> region \<Rightarrow> rat \<times> rat" where
  "region_mb dev r =
     (sectors_to_size (rg_start r) (sectorSize dev), sectors_to_size (rg_end r) (sectorSize dev))"

section \<open>Sample inputs\<close>

text \<open>
  A drive \<^verbatim>\<open>/dev/sda\<close> of 512-byte sectors.  The library functions are given the behaviour
  of pyparted: \<^verbatim>\<open>getSize()\<close> divides the bytes of a region by \<open>1024\<^sup>2\<close>, and
  \<^verbatim>\<open>sizeToSectors(v, "MB", ss)\<close> rounds \<open>v \<sqdot> 1000\<^sup>2 / ss\<close> up.  The sample's memory is 1 GiB,
  where the swap expression is twice the memory.
\<close>

definition no_path :: "string \<Rightarrow> bool" where
  "no_path p = False"

definition any_path :: "string \<Rightarrow> bool" where
  "any_path p = True"

definition no_command :: "string list \<Rightarrow> bool" where
  "no_command cmd = False"

definition any_command :: "string list \<Rightarrow> bool" where
  "any_command cmd = True"

definition sample_part_path :: "nat \<Rightarrow> string" where
  "sample_part_path k =
     (if k = 0 then ''/dev/sda1'' else if k = 1 then ''/dev/sda2'' else ''/dev/sda3'')"

definition sample_getSize :: "region \<Rightarrow> rat" where
  "sample_getSize r = of_int (rg_length r * 512) / 1024 ^ 2"

definition sample_sizeToSectors :: "rat \<Rightarrow> int \<Rightarrow> int" where
  "sample_sizeToSectors v ss = \<lceil>v * 1000 ^ 2 / of_int ss\<rceil>"

definition sample_getDevice :: "int \<Rightarrow> string \<Rightarrow> device" where
  "sample_getDevice sectors p = \<lparr>dpath = p, dlength = sectors, sectorSize = 512\<rparr>"

definition sample_swap :: "rat \<Rightarrow> int" where
  "sample_swap mem = py_trunc (2 * mem)"

definition sample_env ::
  "int \<Rightarrow> region list \<Rightarrow> (string \<Rightarrow> bool) \<Rightarrow> (string list \<Rightarrow> bool) \<Rightarrow> env" where
  "sample_env sectors free exists ok =
     \<lparr>getDevice = sample_getDevice sectors,
      getSize = sample_getSize,
      sizeToSectors = sample_sizeToSectors,
      getFreeSpaceRegions = free,
      part_path = sample_part_path,
      path_exists = exists,
      check_call = ok,
      physical_memory = 2 ^ 30,
      swap_float = sample_swap\<rparr>"

text \<open>Drives of 16 GB, 64 GB, 64 TB and 200.002 TB, in sectors.\<close>

definition sectors_16GB :: int where "sectors_16GB = 31250000"

definition sectors_64GB :: int where "sectors_64GB = 125000000"

definition sectors_64TB :: int where "sectors_64TB = 125000000000"


definition no_raid :: raid_array where
  "no_raid = \<lparr>raid_type = PNone, disks = []\<rparr>"

text \<open>A free region of about 511 MB that begins at sector 2048.\<close>

definition gap_511MB :: region where
  "gap_511MB = \<lparr>rg_start = 2048, rg_end = 999999, rg_length = 997952\<rparr>"

text \<open>A free region of about 102 MB.\<close>

definition gap_102MB :: region where
  "gap_102MB = \<lparr>rg_start = 1000000, rg_end = 1199999, rg_length = 200000\<rparr>"

section \<open>Properties of \<^verbatim>\<open>make_part_boot\<close>\<close>

lemma digit_not_space: "is_digit c \<Longrightarrow> \<not> is_space c"
  by (auto simp: is_digit_def is_space_def Let_def)

lemma digit_not_sign: "is_digit c \<Longrightarrow> c \<noteq> CHR ''-'' \<and> c \<noteq> CHR ''+'' \<and> c \<noteq> CHR ''_'' \<and> c \<noteq> CHR ''n''"
  by (auto simp: is_digit_def Let_def)

lemma digit_val_nonneg: "is_digit c \<Longrightarrow> 0 \<le> digit_val c"
  by (simp add: is_digit_def digit_val_def Let_def)

lemma strip_digits:
  assumes "\<forall>c\<in>set ds. is_digit c"
  shows "strip ds = ds"
proof -
  have a: "dropWhile is_space ds = ds"
    using assms by (cases ds) (auto simp: digit_not_space)
  have b: "dropWhile is_space (rev ds) = rev ds"
    using assms by (cases "rev ds") (auto simp: digit_not_space dest!: arg_cong[where f=set])
  show ?thesis by (simp add: strip_def a b)
qed

lemma int_digits_all_digits:
  "\<forall>c\<in>set ds. is_digit c \<Longrightarrow>
     int_digits acc ds = Inr (foldl (\<lambda>a c. 10 * a + digit_val c) acc ds)"
  by (induction acc ds rule: int_digits.induct) (auto simp: digit_not_sign)

lemma py_int_of_digits:
  assumes "ds \<noteq> []" and "\<forall>c\<in>set ds. is_digit c"
  shows "py_int_of_str ds = Inr (dec_value ds)"
proof -
  obtain c cs where ds: "ds = c # cs" using assms(1) by (cases ds) auto
  have "is_digit c" using assms(2) ds by simp
  then have ns: "c \<noteq> CHR ''-''" "c \<noteq> CHR ''+''" using digit_not_sign by blast+
  show ?thesis
    using assms ns int_digits_all_digits[OF assms(2), of 0]
    by (simp add: py_int_of_str_def strip_digits unsigned_int_def dec_value_def ds)
qed

lemma foldl_dec_nonneg:
  "\<forall>c\<in>set ds. is_digit c \<Longrightarrow> 0 \<le> acc \<Longrightarrow> 0 \<le> foldl (\<lambda>a c. 10 * a + digit_val c) acc ds"
  by (induction ds arbitrary: acc) (auto simp: digit_val_nonneg)

lemma dec_value_nonneg: "\<forall>c\<in>set ds. is_digit c \<Longrightarrow> 0 \<le> dec_value ds"
  by (simp add: dec_value_def foldl_dec_nonneg)

lemma py_index_ok_nonneg:
  "0 \<le> i \<Longrightarrow> py_index_ok xs i = (if nat i < length xs then Some (nat i) else None)"
  by (auto simp: py_index_ok_def)

lemma digits_no_letter_prefix:
  "\<forall>c\<in>set ds. is_digit c \<Longrightarrow> \<not> is_digit k \<Longrightarrow> \<not> prefix (k # r) ds"
  by (cases ds) auto

lemma letters_not_digits: "\<not> is_digit CHR ''n''" "\<not> is_digit CHR ''v''"
  by (simp_all add: is_digit_def)

lemma no_nvme_in_digits: "\<forall>c\<in>set ds. is_digit c \<Longrightarrow> \<not> str_in ''nvme'' ds"
  by (induction ds) (auto simp: letters_not_digits)

lemma no_nvme_in_sd_path:
  assumes "\<forall>c\<in>set ds. is_digit c"
  shows "\<not> str_in ''nvme'' (''/dev/sd'' @ [x] @ ds)"
  using no_nvme_in_digits[OF assms] digits_no_letter_prefix[OF assms letters_not_digits(2)]
  by simp

lemma make_part_boot_sd:
  "\<not> str_in ''nvme'' p \<Longrightarrow>
   make_part_boot open_table p =
     (case open_table (take 8 p) of
        Inl e \<Rightarrow> Inl e
      | Inr ps \<Rightarrow>
          (case py_int_of_str (drop 8 p) of
             Inl e \<Rightarrow> Inl e
           | Inr i \<Rightarrow>
               (case py_index_ok ps i of
                  None \<Rightarrow> Inl IndexError
                | Some k \<Rightarrow> Inr (take 8 p, ps[k := True]))))"
  by (simp add: make_part_boot_def Let_def)

lemma make_part_boot_nvme:
  "str_in ''nvme'' p \<Longrightarrow>
   make_part_boot open_table p =
     (case open_table (take 12 p) of
        Inl e \<Rightarrow> Inl e
      | Inr ps \<Rightarrow>
          (case py_int_of_str (drop 13 p) of
             Inl e \<Rightarrow> Inl e
           | Inr i \<Rightarrow>
               (case py_index_ok ps i of
                  None \<Rightarrow> Inl IndexError
                | Some k \<Rightarrow> Inr (take 12 p, ps[k := True]))))"
  by (simp add: make_part_boot_def Let_def)

lemma nvme_in_nvme_path: "str_in ''nvme'' (''/dev/nvme'' @ rest)"
  by simp

text \<open>
  Claim C10.  For a path \<^verbatim>\<open>/dev/sdXN\<close>, with \<open>N\<close> the decimal number after the drive
  letter, \<^verbatim>\<open>make_part_boot\<close> sets the boot flag of the primary partition at list index \<open>N\<close>
  counted from zero, which is the \<open>(N+1)\<close>-th primary partition of the table, and raises
  \<^verbatim>\<open>IndexError\<close> when the table has at most \<open>N\<close> primary partitions.  For an NVMe path
  \<^verbatim>\<open>/dev/nvmeAnBpN\<close> the same holds with the number after \<^verbatim>\<open>p\<close>.
\<close>

theorem make_part_boot_zero_based:
  assumes "ds \<noteq> []" and "\<forall>c\<in>set ds. is_digit c"
  shows "make_part_boot open_table (''/dev/sd'' @ [x] @ ds) =
           (case open_table (''/dev/sd'' @ [x]) of
              Inl e \<Rightarrow> Inl e
            | Inr ps \<Rightarrow>
                if nat (dec_value ds) < length ps
                then Inr (''/dev/sd'' @ [x], ps[nat (dec_value ds) := True])
                else Inl IndexError)
       \<and> make_part_boot open_table (''/dev/nvme'' @ [a] @ ''n'' @ [b] @ ''p'' @ ds) =
           (case open_table (''/dev/nvme'' @ [a] @ ''n'' @ [b]) of
              Inl e \<Rightarrow> Inl e
            | Inr ps \<Rightarrow>
                if nat (dec_value ds) < length ps
                then Inr (''/dev/nvme'' @ [a] @ ''n'' @ [b], ps[nat (dec_value ds) := True])
                else Inl IndexError)"
proof -
  have i: "py_int_of_str ds = Inr (dec_value ds)"
    using assms by (rule py_int_of_digits)
  have n: "0 \<le> dec_value ds"
    using assms(2) by (rule dec_value_nonneg)
  have sd: "\<not> str_in ''nvme'' (''/dev/sd'' @ [x] @ ds)"
    using assms(2) by (rule no_nvme_in_sd_path)
  have nv: "str_in ''nvme'' (''/dev/nvme'' @ [a] @ ''n'' @ [b] @ ''p'' @ ds)"
    by (rule nvme_in_nvme_path)
  have 1: "make_part_boot open_table (''/dev/sd'' @ [x] @ ds) =
           (case open_table (''/dev/sd'' @ [x]) of
              Inl e \<Rightarrow> Inl e
            | Inr ps \<Rightarrow>
                if nat (dec_value ds) < length ps
                then Inr (''/dev/sd'' @ [x], ps[nat (dec_value ds) := True])
                else Inl IndexError)"
    unfolding make_part_boot_sd[OF sd]
    by (simp add: i py_index_ok_nonneg[OF n] split: sum.splits)
  have 2: "make_part_boot open_table (''/dev/nvme'' @ [a] @ ''n'' @ [b] @ ''p'' @ ds) =
           (case open_table (''/dev/nvme'' @ [a] @ ''n'' @ [b]) of
              Inl e \<Rightarrow> Inl e
            | Inr ps \<Rightarrow>
                if nat (dec_value ds) < length ps
                then Inr (''/dev/nvme'' @ [a] @ ''n'' @ [b], ps[nat (dec_value ds) := True])
                else Inl IndexError)"
    unfolding make_part_boot_nvme[OF nv]
    by (simp add: i py_index_ok_nonneg[OF n] split: sum.splits)
  show ?thesis using 1 2 by blast
qed

text \<open>
  On \<^verbatim>\<open>/dev/sda1\<close> and a table of two primary partitions the second one is flagged; on a
  table of one the call fails.
\<close>

theorem make_part_boot_zero_based_witness:
  "make_part_boot (\<lambda>r. Inr [False, False]) ''/dev/sda1'' = Inr (''/dev/sda'', [False, True])
   \<and> make_part_boot (\<lambda>r. Inr [False]) ''/dev/sda1'' = Inl IndexError
   \<and> make_part_boot (\<lambda>r. Inr [False, False, False]) ''/dev/nvme0n1p2''
       = Inr (''/dev/nvme0n1'', [False, False, True])"
proof -
  have h: "''1'' \<noteq> []" "\<forall>c\<in>set ''1''. is_digit c" "''2'' \<noteq> []" "\<forall>c\<in>set ''2''. is_digit c"
    by (simp_all add: is_digit_def)
  have v: "nat (dec_value ''1'') = 1" "nat (dec_value ''2'') = 2"
    by (simp_all add: dec_value_def digit_val_def)
  show ?thesis
    using h make_part_boot_zero_based[OF h(1,2), of "\<lambda>r. Inr [False, False]" "CHR ''a''"]
      make_part_boot_zero_based[OF h(1,2), of "\<lambda>r. Inr [False]" "CHR ''a''"]
      make_part_boot_zero_based[OF h(3,4), of "\<lambda>r. Inr [False, False, False]" _ "CHR ''0''" "CHR ''1''"]
    by (simp add: v)
qed

section \<open>Properties of \<^verbatim>\<open>make_raid_array\<close>\<close>

lemma io_bind_ret: "io_bind (io_ret x) f tr = f x tr"
  by (simp add: io_bind_def io_ret_def)

lemma io_bind_raise: "io_bind (io_raise e) f tr = (Inl e, tr)"
  by (simp add: io_bind_def io_raise_def)

lemma io_bind_emit: "io_bind (io_emit ev) f tr = f () (tr @ [ev])"
  by (simp add: io_bind_def io_emit_def)

lemma io_bind_result:
  "m tr = (Inr x, tr') \<Longrightarrow> io_bind m f tr = f x tr'"
  "m tr = (Inl e, tr') \<Longrightarrow> io_bind m f tr = (Inl e, tr')"
  by (simp_all add: io_bind_def)

lemma raid_types_dict_None:
  "raid_types_dict t = None \<longleftrightarrow> t \<notin> {PInt 0, PInt 1, PInt 5, PInt 6, PInt 10}"
  by (simp add: raid_types_dict_def)

lemma wrong_disk_count_cases:
  "t = PInt 0 \<or> t = PInt 1 \<Longrightarrow> wrong_disk_count t n \<longleftrightarrow> n < 2"
  "t = PInt 5 \<Longrightarrow> wrong_disk_count t n \<longleftrightarrow> n < 3 \<or> 16 < n"
  "t = PInt 6 \<or> t = PInt 10 \<Longrightarrow> wrong_disk_count t n \<longleftrightarrow> n < 4"
  by (auto simp: wrong_disk_count_def)

lemma make_raid_array_cases:
  "make_raid_array env ms t force tr =
     (case raid_types_dict t of
        None \<Rightarrow> (Inl InvalidRaidType, tr)
      | Some name \<Rightarrow>
          if wrong_disk_count t (length ms) then (Inl WrongDiskCount, tr)
          else
            (case find (\<lambda>d. \<not> path_exists env d) ms of
               Some d \<Rightarrow> (Inl (DeviceNotFound d), tr)
             | None \<Rightarrow>
                 (Inr (check_call env (raid_command ms t name force)),
                  tr @ [Run (raid_command ms t name force)])))"
  by (simp add: make_raid_array_def io_bind_emit io_raise_def io_ret_def split: option.splits)

lemma find_missing_None: "find (\<lambda>d. \<not> path_exists env d) ms = None \<longleftrightarrow> (\<forall>d\<in>set ms. path_exists env d)"
  by (auto simp: find_None_iff)

lemma find_missing_Some:
  "find (\<lambda>d. \<not> path_exists env d) ms = Some d \<Longrightarrow> d \<in> set ms \<and> \<not> path_exists env d"
  by (auto simp: find_Some_iff)

lemma find_first_split:
  "find P xs = Some d \<Longrightarrow> \<exists>pre post. xs = pre @ d # post \<and> (\<forall>x\<in>set pre. \<not> P x) \<and> P d"
proof (induction xs)
  case Nil
  then show ?case by simp
next
  case (Cons a xs)
  show ?case
  proof (cases "P a")
    case True
    with Cons.prems have "a = d" by simp
    with True have "a # xs = [] @ d # xs \<and> (\<forall>x\<in>set []. \<not> P x) \<and> P d" by simp
    then show ?thesis by blast
  next
    case False
    with Cons.prems have "find P xs = Some d" by simp
    from Cons.IH[OF this] obtain pre post
      where "xs = pre @ d # post" "\<forall>x\<in>set pre. \<not> P x" "P d" by blast
    with False have "a # xs = (a # pre) @ d # post \<and> (\<forall>x\<in>set (a # pre). \<not> P x) \<and> P d"
      by simp
    then show ?thesis by blast
  qed
qed

text \<open>
  Claim C2, as amended.  \<^verbatim>\<open>make_raid_array\<close> raises the invalid-argument error for a type
  outside 0, 1, 5, 6 and 10.  For a type among them it raises the invalid-argument error
  exactly when the member count is out of bounds: below 2 for RAID0 and RAID1, outside 3
  to 16 for RAID5, below 4 for RAID6 and RAID10.  With a valid type and count it goes on
  to check the member paths in order: if all exist it runs the array-creation command and
  returns whether that succeeded; otherwise it raises the not-found error for the first
  path that does not exist (every member before it exists) and runs nothing.
\<close>

theorem make_raid_array_validation:
  "(t \<notin> {PInt 0, PInt 1, PInt 5, PInt 6, PInt 10} \<longrightarrow>
      make_raid_array env ms t force tr = (Inl InvalidRaidType, tr))
   \<and> (t \<in> {PInt 0, PInt 1, PInt 5, PInt 6, PInt 10} \<longrightarrow>
        fst (make_raid_array env ms t force tr) \<noteq> Inl InvalidRaidType)
   \<and> (t \<in> {PInt 0, PInt 1} \<longrightarrow>
        (fst (make_raid_array env ms t force tr) = Inl WrongDiskCount \<longleftrightarrow> length ms < 2))
   \<and> (t = PInt 5 \<longrightarrow>
        (fst (make_raid_array env ms t force tr) = Inl WrongDiskCount
           \<longleftrightarrow> length ms < 3 \<or> 16 < length ms))
   \<and> (t \<in> {PInt 6, PInt 10} \<longrightarrow>
        (fst (make_raid_array env ms t force tr) = Inl WrongDiskCount \<longleftrightarrow> length ms < 4))
   \<and> (t \<in> {PInt 0, PInt 1, PInt 5, PInt 6, PInt 10}
        \<and> fst (make_raid_array env ms t force tr) \<noteq> Inl WrongDiskCount \<longrightarrow>
        (if \<forall>d\<in>set ms. path_exists env d
         then \<exists>name. raid_types_dict t = Some name
                \<and> make_raid_array env ms t force tr =
                    (Inr (check_call env (raid_command ms t name force)),
                     tr @ [Run (raid_command ms t name force)])
         else \<exists>pre d post. ms = pre @ d # post
                \<and> (\<forall>x\<in>set pre. path_exists env x) \<and> \<not> path_exists env d
                \<and> find (\<lambda>d. \<not> path_exists env d) ms = Some d
                \<and> make_raid_array env ms t force tr = (Inl (DeviceNotFound d), tr)))"
proof (intro conjI impI)
  assume "t \<notin> {PInt 0, PInt 1, PInt 5, PInt 6, PInt 10}"
  then show "make_raid_array env ms t force tr = (Inl InvalidRaidType, tr)"
    by (simp add: make_raid_array_cases raid_types_dict_def)
next
  assume "t \<in> {PInt 0, PInt 1, PInt 5, PInt 6, PInt 10}"
  then show "fst (make_raid_array env ms t force tr) \<noteq> Inl InvalidRaidType"
    by (auto simp: make_raid_array_cases raid_types_dict_def split: option.splits)
next
  assume "t \<in> {PInt 0, PInt 1}"
  then show "fst (make_raid_array env ms t force tr) = Inl WrongDiskCount \<longleftrightarrow> length ms < 2"
    by (auto simp: make_raid_array_cases raid_types_dict_def wrong_disk_count_def
        split: option.splits)
next
  assume "t = PInt 5"
  then show "fst (make_raid_array env ms t force tr) = Inl WrongDiskCount
           \<longleftrightarrow> length ms < 3 \<or> 16 < length ms"
    by (auto simp: make_raid_array_cases raid_types_dict_def wrong_disk_count_def
        split: option.splits)
next
  assume "t \<in> {PInt 6, PInt 10}"
  then show "fst (make_raid_array env ms t force tr) = Inl WrongDiskCount \<longleftrightarrow> length ms < 4"
    by (auto simp: make_raid_array_cases raid_types_dict_def wrong_disk_count_def
        split: option.splits)
next
  assume a: "t \<in> {PInt 0, PInt 1, PInt 5, PInt 6, PInt 10}
        \<and> fst (make_raid_array env ms t force tr) \<noteq> Inl WrongDiskCount"
  then obtain name where n: "raid_types_dict t = Some name"
    by (auto simp: raid_types_dict_def)
  have c: "\<not> wrong_disk_count t (length ms)"
    using a n by (auto simp: make_raid_array_cases)
  show "if \<forall>d\<in>set ms. path_exists env d
         then \<exists>name. raid_types_dict t = Some name
                \<and> make_raid_array env ms t force tr =
                    (Inr (check_call env (raid_command ms t name force)),
                     tr @ [Run (raid_command ms t name force)])
         else \<exists>pre d post. ms = pre @ d # post
                \<and> (\<forall>x\<in>set pre. path_exists env x) \<and> \<not> path_exists env d
                \<and> find (\<lambda>d. \<not> path_exists env d) ms = Some d
                \<and> make_raid_array env ms t force tr = (Inl (DeviceNotFound d), tr)"
  proof (cases "find (\<lambda>d. \<not> path_exists env d) ms")
    case None
    moreover from None have "\<forall>d\<in>set ms. path_exists env d"
      by (simp only: find_missing_None)
    ultimately show ?thesis
      using n c by (simp add: make_raid_array_cases)
  next
    case (Some d)
    then have m: "d \<in> set ms \<and> \<not> path_exists env d" by (rule find_missing_Some)
    from find_first_split[OF Some] obtain pre post
      where s: "ms = pre @ d # post" "\<forall>x\<in>set pre. path_exists env x" by auto
    have r: "make_raid_array env ms t force tr = (Inl (DeviceNotFound d), tr)"
      using n c Some by (simp add: make_raid_array_cases)
    have ne: "\<not> (\<forall>d\<in>set ms. path_exists env d)" using m by blast
    have "\<exists>pre d post. ms = pre @ d # post
                \<and> (\<forall>x\<in>set pre. path_exists env x) \<and> \<not> path_exists env d
                \<and> find (\<lambda>d. \<not> path_exists env d) ms = Some d
                \<and> make_raid_array env ms t force tr = (Inl (DeviceNotFound d), tr)"
      using s m Some r by blast
    then show ?thesis using ne by (simp only: if_False)
  qed
qed

text \<open>
  RAID0 with one member is refused, with two members the command is run; type 7 is refused;
  RAID5 over three members of which the second and the third are missing reports the second.
\<close>

theorem make_raid_array_validation_witness:
  "fst (make_raid_array (sample_env sectors_16GB [] any_path any_command)
          [''/dev/sdb''] (PInt 0) False []) = Inl WrongDiskCount
   \<and> make_raid_array (sample_env sectors_16GB [] any_path any_command)
          [''/dev/sdb'', ''/dev/sdc''] (PInt 0) False []
       = (Inr True, [Run [''mkfs.btrfs'', ''-d'', ''raid0'', ''/dev/sdb'', ''/dev/sdc'']])
   \<and> make_raid_array (sample_env sectors_16GB [] any_path any_command)
          [''/dev/sdb'', ''/dev/sdc''] (PInt 7) False [] = (Inl InvalidRaidType, [])
   \<and> make_raid_array (sample_env sectors_16GB [] (\<lambda>p. p = ''/dev/sdb'') any_command)
          [''/dev/sdb'', ''/dev/sdc'', ''/dev/sdd''] (PInt 5) True []
       = (Inl (DeviceNotFound ''/dev/sdc''), [])"
proof -
  let ?e = "sample_env sectors_16GB [] any_path any_command"
  let ?m = "sample_env sectors_16GB [] (\<lambda>p. p = ''/dev/sdb'') any_command"
  have 1: "fst (make_raid_array ?e [''/dev/sdb''] (PInt 0) False []) = Inl WrongDiskCount"
    using make_raid_array_validation[of "PInt 0" ?e "[''/dev/sdb'']" False "[]"] by simp
  have 2: "make_raid_array ?e [''/dev/sdb'', ''/dev/sdc''] (PInt 0) False []
       = (Inr True, [Run [''mkfs.btrfs'', ''-d'', ''raid0'', ''/dev/sdb'', ''/dev/sdc'']])"
    using make_raid_array_validation[of "PInt 0" ?e "[''/dev/sdb'', ''/dev/sdc'']" False "[]"]
    by (simp add: sample_env_def any_path_def any_command_def raid_types_dict_def
        raid_command_def)
  have 3: "make_raid_array ?e [''/dev/sdb'', ''/dev/sdc''] (PInt 7) False []
       = (Inl InvalidRaidType, [])"
    using make_raid_array_validation[of "PInt 7" ?e "[''/dev/sdb'', ''/dev/sdc'']" False "[]"]
    by simp
  have p: "path_exists ?m = (\<lambda>p. p = ''/dev/sdb'')" by (simp add: sample_env_def)
  have c: "fst (make_raid_array ?m [''/dev/sdb'', ''/dev/sdc'', ''/dev/sdd''] (PInt 5) True [])
             \<noteq> Inl WrongDiskCount"
    using make_raid_array_validation[of "PInt 5" ?m "[''/dev/sdb'', ''/dev/sdc'', ''/dev/sdd'']"
        True "[]"] by simp
  have 4: "make_raid_array ?m [''/dev/sdb'', ''/dev/sdc'', ''/dev/sdd''] (PInt 5) True []
       = (Inl (DeviceNotFound ''/dev/sdc''), [])"
    using make_raid_array_validation[of "PInt 5" ?m "[''/dev/sdb'', ''/dev/sdc'', ''/dev/sdd'']"
        True "[]"] c
    by (auto simp: p)
  show ?thesis using 1 2 3 4 by blast
qed

text \<open>
  Claim C2 as stated says that a valid type and count lead to the attempt.  With RAID0 and
  two members that do not exist the call raises instead, and no command is run.
\<close>

theorem make_raid_array_missing_member:
  "make_raid_array (sample_env sectors_16GB [] no_path any_command)
      [''/dev/sdb'', ''/dev/sdc''] (PInt 0) False []
     = (Inl (DeviceNotFound ''/dev/sdb''), [])"
  by (simp add: make_raid_array_cases raid_types_dict_def wrong_disk_count_def sample_env_def
      no_path_def)

section \<open>Properties of the planner\<close>

subsection \<open>Errors, traces and results of the parts\<close>

lemma int_digits_error: "int_digits acc s = Inl e \<Longrightarrow> e = IntParseError"
proof (induction acc s rule: int_digits.induct)
  case (1 acc)
  then show ?case by simp
next
  case (2 acc c)
  then show ?case by (simp split: if_splits)
next
  case (3 acc c d cs)
  show ?case
  proof (cases "is_digit c")
    case False
    with 3(3) show ?thesis by simp
  next
    case c: True
    show ?thesis
    proof (cases "d = CHR ''_''")
      case u: True
      show ?thesis
      proof (cases cs)
        case Nil
        with 3(3) c u show ?thesis by simp
      next
        case (Cons e' es)
        show ?thesis
        proof (cases "is_digit e'")
          case False
          with 3(3) c u Cons show ?thesis by simp
        next
          case e: True
          from 3(3) c u Cons e have "int_digits (10 * acc + digit_val c) cs = Inl e" by simp
          with 3(1)[OF c u Cons e] show ?thesis by simp
        qed
      qed
    next
      case u: False
      from 3(3) c u have "int_digits (10 * acc + digit_val c) (d # cs) = Inl e" by simp
      with 3(2)[OF c u] show ?thesis by simp
    qed
  qed
qed

lemma py_int_of_str_error: "py_int_of_str s = Inl e \<Longrightarrow> e = IntParseError"
  by (auto simp: py_int_of_str_def unsigned_int_def map_sum_def
      split: list.splits if_splits sum.splits dest: int_digits_error)

lemma resolve_bound_error: "resolve_bound mb b = Inl e \<Longrightarrow> e = IndexError \<or> e = IntParseError"
  by (auto simp: resolve_bound_def split: bound.splits if_splits sum.splits
      dest: py_int_of_str_error)

lemma raid_builds_append: "raid_builds (tr @ tr') = raid_builds tr @ raid_builds tr'"
  by (induction tr rule: raid_builds.induct) auto


lemma make_efi_run:
  "make_efi env dev a b tr =
     (Inr (part_path env (length (filter is_add tr))),
      tr @ [AddPartition \<lparr>geo_start = a, geo_length = sizeToSectors env (b - a) (sectorSize dev),
                          boot = True, req_start = a, req_end = b\<rparr>,
            Run [''mkfs.fat'', ''-F'', ''32'', part_path env (length (filter is_add tr))]])"
  by (simp add: make_efi_def add_partition_def mkfs_fat_def io_bind_def io_emit_def io_ret_def)

lemma make_root_run:
  "make_root env dev s e fs tr =
     (case resolve_bound (sectors_to_size (dlength dev) (sectorSize dev)) s of
        Inl err \<Rightarrow> (Inl err, tr)
      | Inr s' \<Rightarrow>
          (case resolve_bound (sectors_to_size (dlength dev) (sectorSize dev)) e of
             Inl err \<Rightarrow> (Inl err, tr)
           | Inr e' \<Rightarrow>
               (case (s', e') of
                  (Num a, Num b) \<Rightarrow>
                    (Inr (part_path env (length (filter is_add tr))),
                     tr @ [AddPartition
                             \<lparr>geo_start = of_int (sizeToSectors env a (sectorSize dev)),
                              geo_length = sizeToSectors env (b - a) (sectorSize dev),
                              boot = False, req_start = a, req_end = b\<rparr>,
                           Run [''mkfs'', ''-t'', fs, (if str_in ''ext'' fs then ''-F'' else ''-f''),
                                part_path env (length (filter is_add tr))]])
                | _ \<Rightarrow> (Inl TypeError, tr))))"
  by (simp add: make_root_def add_partition_def mkfs_def io_bind_def io_emit_def io_ret_def
      io_raise_def io_lift_def Let_def split: sum.splits bound.splits)

lemma make_efi_builds: "raid_builds (snd (make_efi env dev a b tr)) = raid_builds tr"
  by (simp add: make_efi_run raid_builds_append)

lemma make_root_builds: "raid_builds (snd (make_root env dev s e fs tr)) = raid_builds tr"
  by (simp add: make_root_run raid_builds_append split: sum.splits bound.splits)

lemma make_home_builds: "raid_builds (snd (make_home env dev s e fs tr)) = raid_builds tr"
  by (simp add: make_home_def make_root_builds)

lemma make_root_boot_builds: "raid_builds (snd (make_root_boot tr)) = raid_builds tr"
  by (simp add: make_root_boot_def io_emit_def raid_builds_append)

lemma io_ret_builds: "raid_builds (snd (io_ret x tr)) = raid_builds tr"
  by (simp add: io_ret_def)

lemma io_lift_builds: "raid_builds (snd (io_lift r tr)) = raid_builds tr"
  by (simp add: io_lift_def io_ret_def io_raise_def split: sum.splits)

lemma io_bind_builds:
  assumes "\<And>tr. raid_builds (snd (m tr)) = raid_builds tr"
    and "\<And>x tr. raid_builds (snd (f x tr)) = raid_builds tr"
  shows "raid_builds (snd (io_bind m f tr)) = raid_builds tr"
proof (cases "m tr")
  case (Pair r tr')
  show ?thesis
  proof (cases r)
    case (Inl e)
    with Pair assms(1)[of tr] show ?thesis by (simp add: io_bind_def)
  next
    case (Inr x)
    with Pair assms(1)[of tr] assms(2)[of x tr'] show ?thesis by (simp add: io_bind_def)
  qed
qed

lemmas builds_rules =
  io_bind_builds make_efi_builds make_root_builds make_home_builds make_root_boot_builds
  io_ret_builds io_lift_builds

lemma whole_disk_layout_builds:
  "raid_builds (snd (whole_disk_layout env cfg dev efi home tr)) = raid_builds tr"
  by (cases efi) (simp_all add: whole_disk_layout_def builds_rules)

lemma make_home_layout_builds:
  "raid_builds (snd (make_home_layout env cfg dev sz efi home tr)) = raid_builds tr"
  by (cases efi) (simp_all add: make_home_layout_def Let_def builds_rules)

lemma elsewhere_layout_builds:
  "raid_builds (snd (elsewhere_layout env cfg dev efi home tr)) = raid_builds tr"
  by (cases efi) (simp_all add: elsewhere_layout_def builds_rules)

lemma same_device_layout_builds:
  "raid_builds (snd (same_device_layout env cfg dev efi home tr)) = raid_builds tr"
  unfolding same_device_layout_def Let_def
  by (rule io_bind_builds) (simp_all add: builds_rules split: option.splits)

lemma plan_layout_builds:
  "raid_builds (snd (plan_layout env cfg root_path dev efi home tr)) = raid_builds tr"
  by (simp add: plan_layout_def whole_disk_layout_builds make_home_layout_builds
      elsewhere_layout_builds same_device_layout_builds split: option.splits)

lemma io_bind_error:
  assumes "fst (io_bind m f tr) = Inl e"
  obtains "fst (m tr) = Inl e" | x tr' where "m tr = (Inr x, tr')" and "fst (f x tr') = Inl e"
  using assms by (auto simp: io_bind_def split: prod.splits sum.splits)


lemma make_root_error:
  "fst (make_root env dev s e fs tr) = Inl err \<Longrightarrow> \<not> raid_validation_error err"
  by (auto simp: make_root_run split: sum.splits bound.splits dest!: resolve_bound_error)

lemma first_fit_error: "first_fit env sizes ks = Inl err \<Longrightarrow> err = KeyError"
  by (induction ks) (auto split: option.splits if_splits)

lemma make_home_error:
  "fst (make_home env dev s e fs tr) = Inl err \<Longrightarrow> \<not> raid_validation_error err"
  by (simp add: make_home_def make_root_error)

lemma whole_disk_layout_error:
  "fst (whole_disk_layout env cfg dev efi home tr) = Inl err \<Longrightarrow> \<not> raid_validation_error err"
  unfolding whole_disk_layout_def
  by (auto simp: make_efi_run io_ret_def make_root_boot_def io_emit_def split: if_splits
      elim!: io_bind_error dest: make_root_error)

lemma make_home_layout_error:
  "fst (make_home_layout env cfg dev sz efi home tr) = Inl err \<Longrightarrow> \<not> raid_validation_error err"
  unfolding make_home_layout_def Let_def
  by (auto simp: make_efi_run io_ret_def make_root_boot_def io_emit_def split: if_splits
      elim!: io_bind_error dest: make_root_error make_home_error)

lemma elsewhere_layout_error:
  "fst (elsewhere_layout env cfg dev efi home tr) = Inl err \<Longrightarrow> \<not> raid_validation_error err"
  unfolding elsewhere_layout_def
  by (auto simp: make_efi_run io_ret_def make_root_boot_def io_emit_def split: if_splits
      elim!: io_bind_error dest: make_root_error)

lemma same_device_layout_error:
  "fst (same_device_layout env cfg dev efi home tr) = Inl err \<Longrightarrow> \<not> raid_validation_error err"
  unfolding same_device_layout_def Let_def
  by (auto simp: make_efi_run io_ret_def make_root_boot_def io_emit_def io_lift_def io_raise_def
      split: if_splits option.splits sum.splits
      elim!: io_bind_error dest: make_root_error first_fit_error)

lemma plan_layout_error:
  "fst (plan_layout env cfg root_path dev efi home tr) = Inl err \<Longrightarrow> \<not> raid_validation_error err"
  unfolding plan_layout_def
  by (auto split: if_splits option.splits
      dest: whole_disk_layout_error make_home_layout_error elsewhere_layout_error
        same_device_layout_error)

lemma prepare_disk_no_raid:
  "prepare_disk env dev home PNone ds tr =
     (if home_unset_or_make home then (Inr home, tr @ [Clobber (dpath dev)]) else (Inr home, tr))"
  by (simp add: prepare_disk_def clobber_disk_def io_bind_emit io_ret_def)

lemma prepare_disk_raid:
  "t \<noteq> PNone \<Longrightarrow>
   prepare_disk env dev home t (Members l) tr =
     (case raid_types_dict t of
        None \<Rightarrow> (Inl InvalidRaidType, tr @ [Clobber (dpath dev)])
      | Some name \<Rightarrow>
          if wrong_disk_count t (length l) then (Inl WrongDiskCount, tr @ [Clobber (dpath dev)])
          else
            (case find (\<lambda>d. \<not> path_exists env d) l of
               Some d \<Rightarrow> (Inl (DeviceNotFound d), tr @ [Clobber (dpath dev)])
             | None \<Rightarrow>
                 if check_call env (raid_command l t name False)
                 then (Inr home,
                       tr @ [Clobber (dpath dev), Run (raid_command l t name False)])
                 else (Inr (if check_call env (raid_command l t name True) then home else None),
                       tr @ [Clobber (dpath dev), Run (raid_command l t name False),
                             Run (raid_command l t name True)])))"
  by (simp add: prepare_disk_def clobber_disk_def io_emit_def io_ret_def io_bind_def
      make_raid_array_cases split: option.splits)

lemma raid_prelude_members:
  "raid_prelude ra = Inr (t, ds) \<Longrightarrow> t \<noteq> PNone \<Longrightarrow> ds = Members (non_null (disks ra))"
  by (auto simp: raid_prelude_def split: if_splits sum.splits pyval.splits)

lemma raid_prelude_none:
  "raid_prelude ra = Inr (PNone, ds) \<Longrightarrow> ds = Slots (disks ra)"
  by (auto simp: raid_prelude_def split: if_splits sum.splits pyval.splits)

lemma raid_prelude_error: "raid_prelude ra = Inl e \<Longrightarrow> e = AttributeError"
  by (auto simp: raid_prelude_def split: if_splits sum.splits pyval.splits)

lemma partition_run:
  "partition env cfg root_path efi home ra tr =
     (case raid_prelude ra of
        Inl e \<Rightarrow> (Inl e, tr)
      | Inr (t, ds) \<Rightarrow>
          (case prepare_disk env (getDevice env root_path) home t ds tr of
             (Inl e, tr') \<Rightarrow> (Inl e, tr')
           | (Inr h, tr') \<Rightarrow> plan_layout env cfg root_path (getDevice env root_path) efi h tr'))"
  by (simp add: partition_def io_bind_def io_lift_def io_raise_def io_ret_def
      split: sum.splits prod.splits)

subsection \<open>RAID validation and the clobber\<close>

lemma prepare_disk_raid_error:
  assumes "t \<noteq> PNone" and "prepare_disk env dev home t (Members l) tr = (Inl e, tr')"
  shows "tr' = tr @ [Clobber (dpath dev)]
       \<and> make_raid_array env l t False (tr @ [Clobber (dpath dev)])
           = (Inl e, tr @ [Clobber (dpath dev)])"
  using assms(2) unfolding prepare_disk_raid[OF assms(1)] make_raid_array_cases
  by (auto split: option.splits if_splits)

text \<open>
  Claim C1, as amended.  When \<^verbatim>\<open>partition\<close> ends in a RAID validation error (invalid type,
  wrong member count, missing member device), the error is the one the first call of
  \<^verbatim>\<open>make_raid_array\<close> raises, the destination device has been clobbered just before that
  call, and the clobber is the only operation of the run: no partition has been created and
  no array-creation command has been run.
\<close>

theorem partition_raid_validation_after_clobber:
  assumes "fst (partition env cfg root_path efi home ra tr) = Inl e"
    and "raid_validation_error e"
  shows "\<exists>t l. raid_prelude ra = Inr (t, Members l)
           \<and> make_raid_array env l t False (tr @ [Clobber (dpath (getDevice env root_path))])
               = (Inl e, tr @ [Clobber (dpath (getDevice env root_path))])
           \<and> partition env cfg root_path efi home ra tr
               = (Inl e, tr @ [Clobber (dpath (getDevice env root_path))])"
proof (cases "raid_prelude ra")
  case (Inl e')
  then have "partition env cfg root_path efi home ra tr = (Inl e', tr)"
    by (simp add: partition_run)
  with assms Inl show ?thesis
    using raid_prelude_error[of ra e'] by auto
next
  case (Inr p)
  obtain t ds where p: "p = (t, ds)" by (cases p)
  obtain r tr' where pd: "prepare_disk env (getDevice env root_path) home t ds tr = (r, tr')"
    by (cases "prepare_disk env (getDevice env root_path) home t ds tr")
  show ?thesis
  proof (cases r)
    case (Inr h)
    then have "partition env cfg root_path efi home ra tr
                 = plan_layout env cfg root_path (getDevice env root_path) efi h tr'"
      using \<open>raid_prelude ra = Inr p\<close> p pd by (simp add: partition_run)
    with assms show ?thesis
      using plan_layout_error[of env cfg root_path "getDevice env root_path" efi h tr' e] by simp
  next
    case (Inl e')
    then have run: "partition env cfg root_path efi home ra tr = (Inl e', tr')"
      using Inr p pd by (simp add: partition_run)
    with assms(1) have e': "e' = e" by simp
    have t: "t \<noteq> PNone"
      using pd Inl by (auto simp: prepare_disk_no_raid split: if_splits)
    then have ds: "ds = Members (non_null (disks ra))"
      using Inr p raid_prelude_members by simp
    from prepare_disk_raid_error[OF t pd[unfolded ds Inl e']] run Inr p ds e'
    show ?thesis by auto
  qed
qed

text \<open>
  RAID1 over two member devices that do not exist: the run ends in the not-found error,
  after the clobber of \<^verbatim>\<open>/dev/sda\<close>.
\<close>

theorem partition_raid_validation_after_clobber_witness:
  "partition (sample_env sectors_16GB [] no_path any_command) default_config ''/dev/sda'' True
      (Some ''/dev/sdb1'')
      \<lparr>raid_type = PStr ''RAID1'', disks = [(''1'', Some ''/dev/sdb''), (''2'', Some ''/dev/sdc'')]\<rparr>
      []
     = (Inl (DeviceNotFound ''/dev/sdb''), [Clobber ''/dev/sda''])
   \<and> raid_validation_error (DeviceNotFound ''/dev/sdb'')"
proof -
  let ?env = "sample_env sectors_16GB [] no_path any_command"
  let ?ra = "\<lparr>raid_type = PStr ''RAID1'',
              disks = [(''1'', Some ''/dev/sdb''), (''2'', Some ''/dev/sdc'')]\<rparr>"
  have lw: "lower ''RAID1'' = ''raid1''" by code_simp
  have pre: "raid_prelude ?ra = Inr (PInt 1, Members [''/dev/sdb'', ''/dev/sdc''])"
    by (simp add: raid_prelude_def lw)
  have f: "fst (partition ?env default_config ''/dev/sda'' True (Some ''/dev/sdb1'') ?ra [])
             = Inl (DeviceNotFound ''/dev/sdb'')"
    by (simp add: partition_run pre prepare_disk_raid raid_types_dict_def wrong_disk_count_def
        sample_env_def no_path_def)
  have d: "dpath (getDevice ?env ''/dev/sda'') = ''/dev/sda''"
    by (simp add: sample_env_def sample_getDevice_def)
  show ?thesis
    using partition_raid_validation_after_clobber[OF f] d by auto
qed

text \<open>
  Claim C1 as stated says that no clobber of the destination precedes the validation that
  raises.  With RAID10 over two members the count check raises, and \<^verbatim>\<open>/dev/sda\<close> has been
  clobbered by then.
\<close>

theorem partition_clobber_precedes_validation:
  "partition (sample_env sectors_16GB [] any_path any_command) default_config ''/dev/sda'' False
      None
      \<lparr>raid_type = PStr ''raid10'', disks = [(''1'', Some ''/dev/sdb''), (''2'', Some ''/dev/sdc'')]\<rparr>
      []
     = (Inl WrongDiskCount, [Clobber ''/dev/sda''])"
proof -
  have lw: "lower ''raid10'' = ''raid10''" by code_simp
  show ?thesis
    by (simp add: partition_run raid_prelude_def lw prepare_disk_raid raid_types_dict_def
        wrong_disk_count_def sample_env_def sample_getDevice_def)
qed

subsection \<open>Unset member slots\<close>

lemma slot_check_None: "slot_check d PNone = PNone"
  by (induction d) auto

lemma slot_check_unset:
  "(''1'', None) \<in> set d \<or> (''2'', None) \<in> set d \<Longrightarrow> slot_check d t = PNone"
  by (induction d arbitrary: t) (auto simp: slot_check_None)

lemma slot_check_set:
  "(''1'', None) \<notin> set d \<Longrightarrow> (''2'', None) \<notin> set d \<Longrightarrow> slot_check d t = t"
  by (induction d arbitrary: t) (auto split: if_splits)

lemma non_null_filter:
  "non_null d = map (\<lambda>kv. the (snd kv)) (filter (\<lambda>kv. snd kv \<noteq> None) d)"
  by (induction d rule: non_null.induct) auto

lemma raid_prelude_str:
  "raid_type ra = PStr s \<Longrightarrow> s \<noteq> ''OEM'' \<Longrightarrow>
   raid_prelude ra =
     (let t = slot_check (disks ra)
                (if lower s = ''raid0'' then PInt 0
                 else if lower s = ''raid1'' then PInt 1
                 else if lower s = ''raid10'' then PInt 10
                 else PStr s)
      in Inr (t, if t \<noteq> PNone then Members (non_null (disks ra)) else Slots (disks ra)))"
  by (simp add: raid_prelude_def Let_def)

lemma clobber_builds: "raid_builds (tr @ [Clobber d]) = raid_builds tr"
  by (simp add: raid_builds_append)

lemma partition_no_raid_builds:
  assumes "raid_prelude ra = Inr (PNone, ds)"
  shows "raid_builds (snd (partition env cfg root_path efi home ra tr)) = raid_builds tr"
  by (simp add: partition_run assms prepare_disk_no_raid plan_layout_builds clobber_builds)

lemma partition_raid_run:
  assumes "t \<noteq> PNone" and "raid_prelude ra = Inr (t, Members l)"
  shows "partition env cfg root_path efi home ra tr =
           io_bind (clobber_disk (getDevice env root_path))
             (\<lambda>_. io_bind (make_raid_array env l t False)
                (\<lambda>ok. if ok then plan_layout env cfg root_path (getDevice env root_path) efi home
                      else io_bind (make_raid_array env l t True)
                             (\<lambda>ok2. plan_layout env cfg root_path (getDevice env root_path) efi
                                      (if ok2 then home else None)))) tr"
  using assms(1)
  by (simp add: partition_def assms(2) prepare_disk_def io_bind_def io_lift_def io_ret_def
      clobber_disk_def io_emit_def split: prod.splits sum.splits)

lemma partition_abandoned:
  assumes "raid_prelude ra = Inr (PNone, ds)"
  shows "partition env cfg root_path efi home ra tr
           = partition env cfg root_path efi home (ra\<lparr>raid_type := PNone\<rparr>) tr"
proof -
  have n: "raid_prelude (ra\<lparr>raid_type := PNone\<rparr>) = Inr (PNone, Slots (disks ra))"
    by (simp add: raid_prelude_def)
  show ?thesis
    unfolding partition_run assms n by (simp add: prepare_disk_no_raid)
qed

text \<open>
  Claim C9, as amended.  For a RAID type given as a string other than \<^verbatim>\<open>"OEM"\<close>: if slot
  \<^verbatim>\<open>"1"\<close> or slot \<^verbatim>\<open>"2"\<close> is \<^verbatim>\<open>None\<close>, the type is reset to \<^verbatim>\<open>None\<close> before anything is
  built, and \<^verbatim>\<open>partition\<close> then runs exactly as it does for a request whose type is
  \<^verbatim>\<open>None\<close>, building no array.  If neither slot is \<^verbatim>\<open>None\<close>, the type stays other than
  \<^verbatim>\<open>None\<close>, and the list of members given to \<^verbatim>\<open>make_raid_array\<close>, in its first call and
  in the forced one, is the list of the values of the slots that are not \<^verbatim>\<open>None\<close>, in
  order.
\<close>

theorem raid_prelude_unset_slot:
  assumes "raid_type ra = PStr s" and "s \<noteq> ''OEM''"
  shows "((''1'', None) \<in> set (disks ra) \<or> (''2'', None) \<in> set (disks ra) \<longrightarrow>
            raid_prelude ra = Inr (PNone, Slots (disks ra))
            \<and> partition env cfg root_path efi home ra tr
                = partition env cfg root_path efi home (ra\<lparr>raid_type := PNone\<rparr>) tr
            \<and> raid_builds (snd (partition env cfg root_path efi home ra tr)) = raid_builds tr)
       \<and> ((''1'', None) \<notin> set (disks ra) \<and> (''2'', None) \<notin> set (disks ra) \<longrightarrow>
            (\<exists>t. t \<noteq> PNone
               \<and> raid_prelude ra =
                   Inr (t, Members (map (\<lambda>kv. the (snd kv))
                                      (filter (\<lambda>kv. snd kv \<noteq> None) (disks ra))))
               \<and> partition env cfg root_path efi home ra tr =
                   io_bind (clobber_disk (getDevice env root_path))
                     (\<lambda>_. io_bind
                        (make_raid_array env
                           (map (\<lambda>kv. the (snd kv)) (filter (\<lambda>kv. snd kv \<noteq> None) (disks ra)))
                           t False)
                        (\<lambda>ok. if ok
                              then plan_layout env cfg root_path (getDevice env root_path) efi home
                              else io_bind
                                     (make_raid_array env
                                        (map (\<lambda>kv. the (snd kv))
                                           (filter (\<lambda>kv. snd kv \<noteq> None) (disks ra)))
                                        t True)
                                     (\<lambda>ok2. plan_layout env cfg root_path
                                              (getDevice env root_path) efi
                                              (if ok2 then home else None)))) tr))"
proof (intro conjI impI)
  assume u: "(''1'', None) \<in> set (disks ra) \<or> (''2'', None) \<in> set (disks ra)"
  show p: "raid_prelude ra = Inr (PNone, Slots (disks ra))"
    by (simp add: raid_prelude_str[OF assms] slot_check_unset[OF u])
  show "partition env cfg root_path efi home ra tr
          = partition env cfg root_path efi home (ra\<lparr>raid_type := PNone\<rparr>) tr"
    using p by (rule partition_abandoned)
  show "raid_builds (snd (partition env cfg root_path efi home ra tr)) = raid_builds tr"
    using p by (rule partition_no_raid_builds)
next
  let ?L = "map (\<lambda>kv. the (snd kv)) (filter (\<lambda>kv. snd kv \<noteq> None) (disks ra))"
  assume "(''1'', None) \<notin> set (disks ra) \<and> (''2'', None) \<notin> set (disks ra)"
  then obtain t where t: "t \<noteq> PNone" and p: "raid_prelude ra = Inr (t, Members ?L)"
    by (simp add: raid_prelude_str[OF assms] slot_check_set non_null_filter Let_def)
  from partition_raid_run[OF t p] t p
  show "\<exists>t. t \<noteq> PNone
               \<and> raid_prelude ra = Inr (t, Members ?L)
               \<and> partition env cfg root_path efi home ra tr =
                   io_bind (clobber_disk (getDevice env root_path))
                     (\<lambda>_. io_bind (make_raid_array env ?L t False)
                        (\<lambda>ok. if ok
                              then plan_layout env cfg root_path (getDevice env root_path) efi home
                              else io_bind (make_raid_array env ?L t True)
                                     (\<lambda>ok2. plan_layout env cfg root_path
                                              (getDevice env root_path) efi
                                              (if ok2 then home else None)))) tr"
    by blast
qed

text \<open>
  RAID0 with slot \<^verbatim>\<open>"2"\<close> unset is abandoned and nothing is built; with slots \<^verbatim>\<open>"1"\<close> and
  \<^verbatim>\<open>"2"\<close> set and slot \<^verbatim>\<open>"3"\<close> unset the two members are kept.
\<close>

theorem raid_prelude_unset_slot_witness:
  "raid_prelude \<lparr>raid_type = PStr ''raid0'',
                  disks = [(''1'', Some ''/dev/sdb''), (''2'', None), (''3'', Some ''/dev/sdd'')]\<rparr>
     = Inr (PNone, Slots [(''1'', Some ''/dev/sdb''), (''2'', None), (''3'', Some ''/dev/sdd'')])
   \<and> raid_builds (snd (partition (sample_env sectors_16GB [] any_path any_command)
                          default_config ''/dev/sda'' True None
                          \<lparr>raid_type = PStr ''raid0'',
                             disks = [(''1'', Some ''/dev/sdb''), (''2'', None),
                                      (''3'', Some ''/dev/sdd'')]\<rparr> [])) = []
   \<and> raid_prelude \<lparr>raid_type = PStr ''raid0'',
                    disks = [(''1'', Some ''/dev/sdb''), (''2'', Some ''/dev/sdc''), (''3'', None)]\<rparr>
       = Inr (PInt 0, Members [''/dev/sdb'', ''/dev/sdc''])"
proof -
  let ?u = "\<lparr>raid_type = PStr ''raid0'',
             disks = [(''1'', Some ''/dev/sdb''), (''2'', None), (''3'', Some ''/dev/sdd'')]\<rparr>"
  let ?v = "\<lparr>raid_type = PStr ''raid0'',
             disks = [(''1'', Some ''/dev/sdb''), (''2'', Some ''/dev/sdc''), (''3'', None)]\<rparr>"
  have lw: "lower ''raid0'' = ''raid0''" by code_simp
  have u: "(''1'', None) \<in> set (disks ?u) \<or> (''2'', None) \<in> set (disks ?u)"
    and su: "raid_type ?u = PStr ''raid0''" "''raid0'' \<noteq> ''OEM''"
    by simp_all
  note th = raid_prelude_unset_slot[OF su, of "sample_env sectors_16GB [] any_path any_command"
      default_config "''/dev/sda''" True None "[]"]
  have 1: "raid_prelude ?u = Inr (PNone, Slots (disks ?u))
           \<and> raid_builds (snd (partition (sample_env sectors_16GB [] any_path any_command)
                                  default_config ''/dev/sda'' True None ?u [])) = raid_builds []"
    using th u by blast
  have nv: "(''1'', None) \<notin> set (disks ?v) \<and> (''2'', None) \<notin> set (disks ?v)"
    and sv: "raid_type ?v = PStr ''raid0''"
    by simp_all
  note tv = raid_prelude_unset_slot[OF sv su(2),
      of "sample_env sectors_16GB [] any_path any_command" default_config "''/dev/sda''"
        True None "[]", THEN conjunct2, rule_format, OF nv]
  then obtain t where "t \<noteq> PNone"
    and 2: "raid_prelude ?v = Inr (t, Members (map (\<lambda>kv. the (snd kv))
                                      (filter (\<lambda>kv. snd kv \<noteq> None) (disks ?v))))"
    by blast
  have "raid_prelude ?v = Inr (PInt 0, Members (non_null (disks ?v)))"
    by (simp add: raid_prelude_def lw)
  with 2 have 3: "raid_prelude ?v = Inr (PInt 0, Members [''/dev/sdb'', ''/dev/sdc''])"
    by simp
  show ?thesis using 1 3 by simp
qed

text \<open>
  Claim C9 as stated speaks of every recognized RAID type.  A type that is already one of
  the integers 0, 1, 5, 6 and 10 has no \<^verbatim>\<open>lower\<close>: with type 1 and slot \<^verbatim>\<open>"2"\<close> unset
  the planner raises \<^verbatim>\<open>AttributeError\<close> at line 401 and the request is not abandoned.
\<close>

theorem partition_int_type_raises:
  "partition (sample_env sectors_16GB [] any_path any_command) default_config ''/dev/sda'' True
      None \<lparr>raid_type = PInt 1, disks = [(''1'', Some ''/dev/sdb''), (''2'', None)]\<rparr> []
     = (Inl AttributeError, [])"
  by (simp add: partition_run raid_prelude_def)

subsection \<open>The retry of a failed array build\<close>

lemma py_trunc_int: "py_trunc (of_int n) = n"
  by (simp add: py_trunc_def)

lemma resolve_bound_Num: "resolve_bound mb (Num x) = Inr (Num x)"
  by (simp add: resolve_bound_def)

lemma py_int_of_str_0: "py_int_of_str ''0'' = Inr 0"
  using py_int_of_digits[of "''0''"] by (simp add: is_digit_def dec_value_def digit_val_def)

lemma py_int_of_str_100: "py_int_of_str ''100'' = Inr 100"
  using py_int_of_digits[of "''100''"] by (simp add: is_digit_def dec_value_def digit_val_def)

lemma resolve_bound_0: "resolve_bound mb (Str ''0%'') = Inr (Num 0)"
  by (simp add: resolve_bound_def py_int_of_str_0 py_trunc_def)

lemma resolve_bound_100: "resolve_bound mb (Str ''100%'') = Inr (Num (of_int (py_trunc mb)))"
  by (simp add: resolve_bound_def py_int_of_str_100)

lemmas resolve_bound_simps = resolve_bound_Num resolve_bound_0 resolve_bound_100

lemma is_add_simps:
  "is_add (AddPartition rq)" "\<not> is_add (Run cmd)" "\<not> is_add (Clobber d)" "\<not> is_add SetBootFirst"
  by (simp_all add: is_add_def)

lemma whole_disk_layout_run:
  assumes "efi \<longrightarrow> resolve_bound (sectors_to_size (dlength dev) (sectorSize dev)) (ROOT_START cfg)
                     = Inr (Num x)"
  shows "\<exists>p q tr'. whole_disk_layout env cfg dev efi home tr =
           (Inr (generate_return_data home efi (Some p) (if efi then Some q else None) None), tr')"
  using assms
  by (cases efi)
     (auto simp: whole_disk_layout_def io_bind_def make_efi_run make_root_run
        resolve_bound_simps make_root_boot_def io_emit_def io_ret_def is_add_simps)

lemma whole_disk_layout_fst:
  assumes "length (filter is_add tr) = length (filter is_add tr')"
  shows "fst (whole_disk_layout env cfg dev efi home tr)
           = fst (whole_disk_layout env cfg dev efi home tr')"
  using assms
  by (cases efi)
     (auto simp: whole_disk_layout_def io_bind_def make_efi_run make_root_run
        resolve_bound_simps make_root_boot_def io_emit_def io_ret_def is_add_simps
        split: sum.splits bound.splits)

lemma plan_layout_no_home:
  "plan_layout env cfg root_path dev efi None tr = whole_disk_layout env cfg dev efi None tr"
  by (simp add: plan_layout_def)

lemma partition_no_home_no_raid:
  "partition env cfg root_path efi None (ra\<lparr>raid_type := PNone\<rparr>) tr =
     whole_disk_layout env cfg (getDevice env root_path) efi None
       (tr @ [Clobber (dpath (getDevice env root_path))])"
  by (simp add: partition_run raid_prelude_def prepare_disk_no_raid home_unset_or_make_def
      plan_layout_no_home)

lemma make_raid_array_False:
  assumes "fst (make_raid_array env l t False tr) = Inr False"
  shows "\<exists>name. raid_types_dict t = Some name \<and> \<not> wrong_disk_count t (length l)
           \<and> find (\<lambda>d. \<not> path_exists env d) l = None
           \<and> \<not> check_call env (raid_command l t name False)"
  using assms unfolding make_raid_array_cases
  by (auto split: option.splits if_splits)

text \<open>
  A request by a name that lines 401 to 406 do not turn into an integer, \<^verbatim>\<open>"raid5"\<close> and
  \<^verbatim>\<open>"raid6"\<close> among them, never reaches a build: \<^verbatim>\<open>make_raid_array\<close> refuses the name
  after the device has been clobbered.
\<close>

lemma partition_other_name_refused:
  assumes "raid_type ra = PStr s" and "s \<noteq> ''OEM''"
    and "lower s \<noteq> ''raid0''" and "lower s \<noteq> ''raid1''" and "lower s \<noteq> ''raid10''"
    and "(''1'', None) \<notin> set (disks ra)" and "(''2'', None) \<notin> set (disks ra)"
  shows "partition env cfg root_path efi home ra tr =
           (Inl InvalidRaidType, tr @ [Clobber (dpath (getDevice env root_path))])"
  using assms(3-5)
  by (simp add: partition_run raid_prelude_str[OF assms(1,2)] slot_check_set[OF assms(6,7)]
      Let_def prepare_disk_raid raid_types_dict_def)

text \<open>
  Claim C8.  A RAID request that reaches the build, whose first build fails, that is, whose
  first call of \<^verbatim>\<open>make_raid_array\<close> returns \<^verbatim>\<open>False\<close>: the run of \<^verbatim>\<open>partition\<close> clobbers
  the device, runs the build command and then the same command with \<^verbatim>\<open>-f\<close>, and goes on
  to lay out the device, with \<^verbatim>\<open>home\<close> set to \<^verbatim>\<open>None\<close> if the forced build failed as well.
  These two are the only array builds of the run.  If the forced build fails, the result is
  the one \<^verbatim>\<open>partition\<close> gives for no home partition and no RAID request; it is a layout
  whose \<^verbatim>\<open>HOME\<close> is \<^verbatim>\<open>None\<close> and whose \<^verbatim>\<open>ROOT\<close> is set whenever
  \<^verbatim>\<open>__make_root__\<close> accepts the configured start of root (a number or a percentage), which
  matters only with UEFI.
\<close>

theorem partition_raid_retry:
  assumes "raid_prelude ra = Inr (t, Members l)"
    and "fst (make_raid_array env l t False [Clobber (dpath (getDevice env root_path))])
           = Inr False"
  shows "\<exists>name. raid_types_dict t = Some name
     \<and> partition env cfg root_path efi home ra [] =
         plan_layout env cfg root_path (getDevice env root_path) efi
           (if check_call env (raid_command l t name True) then home else None)
           [Clobber (dpath (getDevice env root_path)),
            Run (raid_command l t name False), Run (raid_command l t name True)]
     \<and> raid_builds (snd (partition env cfg root_path efi home ra []))
         = [raid_command l t name False, raid_command l t name True]
     \<and> (\<not> check_call env (raid_command l t name True) \<longrightarrow>
          fst (partition env cfg root_path efi home ra [])
            = fst (partition env cfg root_path efi None (ra\<lparr>raid_type := PNone\<rparr>) [])
          \<and> ((efi \<longrightarrow> (\<exists>x. resolve_bound
                              (sectors_to_size (dlength (getDevice env root_path))
                                 (sectorSize (getDevice env root_path)))
                              (ROOT_START cfg) = Inr (Num x))) \<longrightarrow>
               (\<exists>lay p. fst (partition env cfg root_path efi home ra []) = Inr lay
                  \<and> lay ''HOME'' = Some None \<and> lay ''ROOT'' = Some (Some p))))"
proof -
  let ?dev = "getDevice env root_path"
  from make_raid_array_False[OF assms(2)] obtain name
    where n: "raid_types_dict t = Some name" and w: "\<not> wrong_disk_count t (length l)"
      and f: "find (\<lambda>d. \<not> path_exists env d) l = None"
      and c: "\<not> check_call env (raid_command l t name False)" by blast
  let ?tr = "[Clobber (dpath ?dev), Run (raid_command l t name False),
              Run (raid_command l t name True)]"
  have t: "t \<noteq> PNone" using n by (auto simp: raid_types_dict_def)
  have run: "partition env cfg root_path efi home ra [] =
           plan_layout env cfg root_path ?dev efi
             (if check_call env (raid_command l t name True) then home else None) ?tr"
    using n w c by (simp add: partition_run assms(1) prepare_disk_raid[OF t] f)
  have b: "raid_builds (snd (partition env cfg root_path efi home ra []))
           = [raid_command l t name False, raid_command l t name True]"
    unfolding run plan_layout_builds by (simp add: raid_command_def)
  have d: "fst (partition env cfg root_path efi home ra [])
            = fst (partition env cfg root_path efi None (ra\<lparr>raid_type := PNone\<rparr>) [])"
    if "\<not> check_call env (raid_command l t name True)"
    unfolding run partition_no_home_no_raid using that
    by (simp add: plan_layout_no_home whole_disk_layout_fst[of ?tr "[Clobber (dpath ?dev)]"]
        is_add_simps)
  have e: "\<exists>lay p. fst (partition env cfg root_path efi home ra []) = Inr lay
               \<and> lay ''HOME'' = Some None \<and> lay ''ROOT'' = Some (Some p)"
    if nf: "\<not> check_call env (raid_command l t name True)"
      and r: "efi \<longrightarrow> (\<exists>x. resolve_bound (sectors_to_size (dlength ?dev) (sectorSize ?dev))
                              (ROOT_START cfg) = Inr (Num x))"
  proof -
    from r obtain x where "efi \<longrightarrow> resolve_bound (sectors_to_size (dlength ?dev) (sectorSize ?dev))
                              (ROOT_START cfg) = Inr (Num x)" by blast
    from whole_disk_layout_run[OF this] obtain p q tr'
      where "whole_disk_layout env cfg ?dev efi None ?tr =
           (Inr (generate_return_data None efi (Some p) (if efi then Some q else None) None), tr')"
      by blast
    then show ?thesis
      unfolding run using nf by (auto simp: plan_layout_no_home generate_return_data_def)
  qed
  show ?thesis using n run b d e by blast
qed

text \<open>
  RAID1 over \<^verbatim>\<open>/dev/sdb\<close> and \<^verbatim>\<open>/dev/sdc\<close> where every command fails: both builds are run
  and a layout without a home partition is returned.
\<close>

theorem partition_raid_retry_witness:
  "raid_builds (snd (partition (sample_env sectors_16GB [] any_path no_command) default_config
                       ''/dev/sda'' True (Some ''MAKE'')
                       \<lparr>raid_type = PStr ''raid1'',
                          disks = [(''1'', Some ''/dev/sdb''), (''2'', Some ''/dev/sdc'')]\<rparr> []))
     = [[''mkfs.btrfs'', ''-d'', ''raid1'', ''-m'', ''raid1'', ''/dev/sdb'', ''/dev/sdc''],
        [''mkfs.btrfs'', ''-f'', ''-d'', ''raid1'', ''-m'', ''raid1'', ''/dev/sdb'', ''/dev/sdc'']]
   \<and> (\<exists>lay p. fst (partition (sample_env sectors_16GB [] any_path no_command) default_config
                         ''/dev/sda'' True (Some ''MAKE'')
                         \<lparr>raid_type = PStr ''raid1'',
                            disks = [(''1'', Some ''/dev/sdb''), (''2'', Some ''/dev/sdc'')]\<rparr> [])
                  = Inr lay
          \<and> lay ''HOME'' = Some None \<and> lay ''ROOT'' = Some (Some p))"
proof -
  let ?env = "sample_env sectors_16GB [] any_path no_command"
  let ?ra = "\<lparr>raid_type = PStr ''raid1'',
              disks = [(''1'', Some ''/dev/sdb''), (''2'', Some ''/dev/sdc'')]\<rparr>"
  let ?l = "[''/dev/sdb'', ''/dev/sdc'']"
  let ?run = "partition ?env default_config ''/dev/sda'' True (Some ''MAKE'') ?ra []"
  have lw: "lower ''raid1'' = ''raid1''" by code_simp
  have 1: "raid_prelude ?ra = Inr (PInt 1, Members ?l)"
    by (simp add: raid_prelude_def lw)
  have 2: "fst (make_raid_array ?env ?l (PInt 1) False [Clobber (dpath (getDevice ?env ''/dev/sda''))])
             = Inr False"
    by (simp add: make_raid_array_cases raid_types_dict_def wrong_disk_count_def sample_env_def
        any_path_def no_command_def)
  from partition_raid_retry[OF 1 2, of default_config True "Some ''MAKE''"] obtain name
    where n: "raid_types_dict (PInt 1) = Some name"
      and b: "raid_builds (snd ?run)
                = [raid_command ?l (PInt 1) name False, raid_command ?l (PInt 1) name True]"
      and c: "\<not> check_call ?env (raid_command ?l (PInt 1) name True) \<longrightarrow>
          fst ?run = fst (partition ?env default_config ''/dev/sda'' True None
                            (?ra\<lparr>raid_type := PNone\<rparr>) [])
          \<and> ((True \<longrightarrow> (\<exists>x. resolve_bound
                              (sectors_to_size (dlength (getDevice ?env ''/dev/sda''))
                                 (sectorSize (getDevice ?env ''/dev/sda'')))
                              (ROOT_START default_config) = Inr (Num x))) \<longrightarrow>
               (\<exists>lay p. fst ?run = Inr lay
                  \<and> lay ''HOME'' = Some None \<and> lay ''ROOT'' = Some (Some p)))"
    by blast
  have name: "name = ''raid1''" using n by (simp add: raid_types_dict_def)
  have nf: "\<not> check_call ?env (raid_command ?l (PInt 1) name True)"
    by (simp add: sample_env_def no_command_def)
  have r: "\<exists>x. resolve_bound (sectors_to_size (dlength (getDevice ?env ''/dev/sda''))
                                 (sectorSize (getDevice ?env ''/dev/sda'')))
                 (ROOT_START default_config) = Inr (Num x)"
    by (simp add: default_config_def resolve_bound_def)
  have l: "\<exists>lay p. fst ?run = Inr lay \<and> lay ''HOME'' = Some None \<and> lay ''ROOT'' = Some (Some p)"
    using c nf r by blast
  show ?thesis
    using b l by (simp add: name raid_command_def)
qed

subsection \<open>The returned layout\<close>


















subsection \<open>Making a home partition\<close>






subsection \<open>The small-disk test\<close>

lemma small_disk_test_in_bytes:
  "planner_size dev \<le> LIMITER \<longleftrightarrow> device_bytes dev \<le> 32 * 10 ^ 12"
  by (simp add: planner_size_def LIMITER_def sectors_to_size_def device_bytes_def
      gb_to_bytes_def field_simps)

text \<open>
  Claim C4 on a drive of 64 GB.  The planner's \<^verbatim>\<open>size\<close> is the device's bytes divided by
  1000, here 64 000 000, and \<^verbatim>\<open>LIMITER\<close> is 32 000 000 000 bytes, so the test
  \<^verbatim>\<open>size <= LIMITER\<close> holds and the small-disk branch is taken: with a home policy of
  \<^verbatim>\<open>"MAKE"\<close> and no UEFI the run adds one root partition from 0 to 64000 MB, makes it
  bootable, and returns no home partition.
\<close>

theorem partition_small_disk_64GB:
  "device_bytes (getDevice (sample_env sectors_64GB [] any_path any_command) ''/dev/sda'')
     = 64 * 10 ^ 9
   \<and> planner_size (getDevice (sample_env sectors_64GB [] any_path any_command) ''/dev/sda'')
       = 64 * 10 ^ 6
   \<and> LIMITER = 32 * 10 ^ 9
   \<and> snd (partition (sample_env sectors_64GB [] any_path any_command) default_config
             ''/dev/sda'' False (Some ''MAKE'') no_raid [])
       = [Clobber ''/dev/sda'',
          AddPartition \<lparr>geo_start = 0, geo_length = 125000000, boot = False,
                        req_start = 0, req_end = 64000\<rparr>,
          Run [''mkfs'', ''-t'', ''ext4'', ''-F'', ''/dev/sda1''],
          SetBootFirst]
   \<and> layout_entries (fst (partition (sample_env sectors_64GB [] any_path any_command)
                              default_config ''/dev/sda'' False (Some ''MAKE'') no_raid []))
       = Inr (Some None, Some (Some ''/dev/sda1''), Some None)"
  by code_simp

subsection \<open>The home partition on the installation drive\<close>

text \<open>
  Claim C6 on a drive of 64 TB whose home partition is \<^verbatim>\<open>/dev/sda3\<close>, with free regions of
  about 102 MB and about 511 MB.  The scan chooses the second region, sectors 2048 to
  999999, which is 1.048576 MB to 511.999488 MB.  Without UEFI root is requested from 2048
  MB to 999999 MB: the sector numbers are passed as megabytes.  With UEFI the EFI partition
  is requested from 2048 MB to 201.048576 MB and root from there to 999999 MB.
\<close>

theorem partition_same_device_sectors_as_MB:
  "request_bounds (snd (partition (sample_env sectors_64TB [gap_102MB, gap_511MB] any_path any_command)
                          default_config ''/dev/sda'' False (Some ''/dev/sda3'') no_raid []))
     = [(2048, 999999)]
   \<and> request_bounds (snd (partition (sample_env sectors_64TB [gap_102MB, gap_511MB] any_path any_command)
                          default_config ''/dev/sda'' True (Some ''/dev/sda3'') no_raid []))
     = [(2048, 201048576 / 1000000), (201048576 / 1000000, 999999)]
   \<and> region_mb (getDevice (sample_env sectors_64TB [gap_102MB, gap_511MB] any_path any_command)
                  ''/dev/sda'') gap_511MB
     = (1048576 / 1000000, 511999488 / 1000000)"
  by code_simp

end
